theory Spec2Isabelle
  imports Main "HOL-Library.AList" "HOL-Library.Sublist"
begin

section \<open>MiniExpress: a shallow embedding of \<^verbatim>\<open>src/project/server.py\<close>\<close>

text \<open>
  Conventions of the embedding.
  \<^item> A Python \<^verbatim>\<open>bytes\<close> object is a \<open>string\<close> (a list of 8-bit characters).
  \<^item> A Python \<^verbatim>\<open>str\<close> is represented by its UTF-8 encoding, again a \<open>string\<close>. The
    characters the server looks for (\<^verbatim>\<open>/ : ? & = + %\<close>, CR, LF) are ASCII and never occur
    inside a multi-byte UTF-8 sequence, so splitting, stripping and prefix tests on the
    encoding agree with the same operations on code points.
  \<^item> A Python \<^verbatim>\<open>dict\<close> whose iteration order is observable (the response headers are
    written in insertion order) is an association list updated with \<open>AList.update\<close>:
    an existing key keeps its position, a new key goes to the end.
  \<^item> An exception is a value; a function that can raise returns the exception beside the
    state it leaves behind.
  \<^item> The \<^verbatim>\<open>print\<close> calls are left out, and so is \<^verbatim>\<open>listen\<close>: one call of
    \<^verbatim>\<open>handle_request\<close> serves one connection and shares no state with another.
\<close>

subsection \<open>Exceptions\<close>

datatype exc_class =
    BrokenPipeError | OSError | FileNotFoundError | NotADirectoryError | IsADirectoryError
  | ValueError | UnicodeDecodeError | UnicodeEncodeError
  | ExceptionSubclass   \<comment> \<open>any other class derived from \<^verbatim>\<open>Exception\<close>\<close>
  | BaseExceptionOnly   \<comment> \<open>\<^verbatim>\<open>KeyboardInterrupt\<close>, \<^verbatim>\<open>SystemExit\<close>: not derived from \<^verbatim>\<open>Exception\<close>\<close>

text \<open>
  An exception instance: its class and the text \<^verbatim>\<open>str(e)\<close>. The server reads that text
  in one place only (a failed read of a static file); the texts of the exceptions the
  library raises elsewhere are shortened.
\<close>

datatype py_exc = PyExc exc_class string

fun exc_class_of :: "py_exc \<Rightarrow> exc_class" where
  "exc_class_of (PyExc c m) = c"

fun exc_str :: "py_exc \<Rightarrow> string" where
  "exc_str (PyExc c m) = m"

text \<open>What \<^verbatim>\<open>except Exception\<close> catches.\<close>

definition is_Exception :: "py_exc \<Rightarrow> bool" where
  "is_Exception e = (exc_class_of e \<noteq> BaseExceptionOnly)"

subsection \<open>Strings\<close>

definition byte :: "char \<Rightarrow> nat" where
  "byte c = of_char c"

text \<open>\<^verbatim>\<open>s.split(sep)\<close> for a one-character separator: never the empty list.\<close>

fun split_on :: "char \<Rightarrow> string \<Rightarrow> string list" where
  "split_on sep [] = [[]]"
| "split_on sep (c # cs) =
     (if c = sep then [] # split_on sep cs
      else case split_on sep cs of
             w # ws \<Rightarrow> (c # w) # ws
           | [] \<Rightarrow> [[c]])"

text \<open>
  \<^verbatim>\<open>s.split(sep, 1)\<close> when it has two parts (the separator occurs), else \<open>None\<close>.
\<close>

definition split1 :: "char \<Rightarrow> string \<Rightarrow> (string \<times> string) option" where
  "split1 sep s =
     (if sep \<in> set s
      then Some (takeWhile (\<lambda>c. c \<noteq> sep) s, tl (dropWhile (\<lambda>c. c \<noteq> sep) s))
      else None)"

definition lstrip :: "char \<Rightarrow> string \<Rightarrow> string" where
  "lstrip ch s = dropWhile (\<lambda>c. c = ch) s"

definition rstrip :: "char \<Rightarrow> string \<Rightarrow> string" where
  "rstrip ch s = rev (dropWhile (\<lambda>c. c = ch) (rev s))"

definition strip :: "char \<Rightarrow> string \<Rightarrow> string" where
  "strip ch s = rstrip ch (lstrip ch s)"

text \<open>\<^verbatim>\<open>s.replace('+', ' ')\<close>\<close>

definition plus_to_space :: "string \<Rightarrow> string" where
  "plus_to_space s = map (\<lambda>c. if c = CHR ''+'' then CHR '' '' else c) s"

subsection \<open>UTF-8\<close>

text \<open>
  The decoder of CPython (\<^verbatim>\<open>Objects/stringlib/codecs.h\<close>, \<^verbatim>\<open>utf8_decode\<close>): at the head
  of the input stands either a well-formed sequence of 1 to 4 bytes or an error range of
  1 to 3 bytes (an invalid start byte, a start byte with the continuation bytes accepted
  so far, or a truncated sequence at the end of the input). \<open>utf8_extra c cs\<close> tells
  which, and how many bytes of \<open>cs\<close> belong to it beside \<open>c\<close>.
\<close>

definition is_cont :: "char \<Rightarrow> bool" where
  "is_cont c = (0x80 \<le> byte c \<and> byte c \<le> 0xBF)"

definition utf8_extra :: "char \<Rightarrow> string \<Rightarrow> bool \<times> nat" where
  "utf8_extra c cs =
     (let ch = byte c in
      if ch < 0x80 then (True, 0)
      else if ch < 0xC2 then (False, 0)
      else if ch < 0xE0 then
        (case cs of
           [] \<Rightarrow> (False, 0)
         | c2 # _ \<Rightarrow> if is_cont c2 then (True, 1) else (False, 0))
      else if ch < 0xF0 then
        (case cs of
           [] \<Rightarrow> (False, 0)
         | c2 # cs2 \<Rightarrow>
             if \<not> is_cont c2 \<or> (if byte c2 < 0xA0 then ch = 0xE0 else ch = 0xED)
             then (False, 0)
             else (case cs2 of
                     [] \<Rightarrow> (False, 1)
                   | c3 # _ \<Rightarrow> if is_cont c3 then (True, 2) else (False, 1)))
      else if ch < 0xF5 then
        (case cs of
           [] \<Rightarrow> (False, 0)
         | c2 # cs2 \<Rightarrow>
             if \<not> is_cont c2 \<or> (if byte c2 < 0x90 then ch = 0xF0 else ch = 0xF4)
             then (False, 0)
             else (case cs2 of
                     [] \<Rightarrow> (False, 1)
                   | c3 # cs3 \<Rightarrow>
                       if \<not> is_cont c3 then (False, 1)
                       else (case cs3 of
                               [] \<Rightarrow> (False, 2)
                             | c4 # _ \<Rightarrow> if is_cont c4 then (True, 3) else (False, 2))))
      else (False, 0))"

text \<open>
  The input cut into these units, each marked well-formed or not. \<open>skip\<close> counts the
  bytes still belonging to the unit in \<open>cur\<close>.
\<close>

fun utf8_units_aux :: "nat \<Rightarrow> bool \<Rightarrow> string \<Rightarrow> string \<Rightarrow> (bool \<times> string) list" where
  "utf8_units_aux skip ok cur [] = (if cur = [] then [] else [(ok, cur)])"
| "utf8_units_aux (Suc k) ok cur (c # cs) = utf8_units_aux k ok (cur @ [c]) cs"
| "utf8_units_aux 0 ok cur (c # cs) =
     (if cur = [] then [] else [(ok, cur)])
       @ (case utf8_extra c cs of (ok', k) \<Rightarrow> utf8_units_aux k ok' [c] cs)"

definition utf8_units :: "string \<Rightarrow> (bool \<times> string) list" where
  "utf8_units b = utf8_units_aux 0 True [] b"

text \<open>
  \<^verbatim>\<open>b.decode('utf-8')\<close> raises \<^verbatim>\<open>UnicodeDecodeError\<close> at the first error range;
  \<^verbatim>\<open>errors='ignore'\<close> drops every error range; \<^verbatim>\<open>errors='replace'\<close> puts U+FFFD (in
  UTF-8: EF BF BD) for each. The result is the UTF-8 encoding of the decoded \<^verbatim>\<open>str\<close>.
\<close>

definition decode_strict :: "string \<Rightarrow> string option" where
  "decode_strict b = (if list_all fst (utf8_units b) then Some b else None)"

definition decode_ignore :: "string \<Rightarrow> string" where
  "decode_ignore b = concat (map snd (filter fst (utf8_units b)))"

definition U_FFFD :: string where
  "U_FFFD = [CHR 0xEF, CHR 0xBF, CHR 0xBD]"

definition decode_replace :: "string \<Rightarrow> string" where
  "decode_replace b = concat (map (\<lambda>u. if fst u then snd u else U_FFFD) (utf8_units b))"

subsection \<open>Whitespace\<close>

text \<open>
  The characters of \<^verbatim>\<open>str.isspace\<close>, in UTF-8: U+0009..U+000D, U+001C..U+0020, U+0085,
  U+00A0, U+1680, U+2000..U+200A, U+2028, U+2029, U+202F, U+205F, U+3000.
  \<open>ws_len s\<close> is the length of the whitespace character at the head of \<open>s\<close>, or 0.
\<close>

definition ws3 :: "nat \<Rightarrow> nat \<Rightarrow> nat \<Rightarrow> bool" where
  "ws3 b1 b2 b3 =
     ((b1 = 0xE1 \<and> b2 = 0x9A \<and> b3 = 0x80)
      \<or> (b1 = 0xE2 \<and> b2 = 0x80
           \<and> ((0x80 \<le> b3 \<and> b3 \<le> 0x8A) \<or> b3 = 0xA8 \<or> b3 = 0xA9 \<or> b3 = 0xAF))
      \<or> (b1 = 0xE2 \<and> b2 = 0x81 \<and> b3 = 0x9F)
      \<or> (b1 = 0xE3 \<and> b2 = 0x80 \<and> b3 = 0x80))"

definition ws_len :: "string \<Rightarrow> nat" where
  "ws_len s =
     (case map byte (take 3 s) of
        [] \<Rightarrow> 0
      | b1 # r \<Rightarrow>
          if (9 \<le> b1 \<and> b1 \<le> 13) \<or> (28 \<le> b1 \<and> b1 \<le> 32) then 1
          else (case r of
                  [] \<Rightarrow> 0
                | b2 # r2 \<Rightarrow>
                    if b1 = 0xC2 \<and> (b2 = 0x85 \<or> b2 = 0xA0) then 2
                    else (case r2 of
                            [] \<Rightarrow> 0
                          | b3 # _ \<Rightarrow> if ws3 b1 b2 b3 then 3 else 0)))"

text \<open>The length of the whitespace character at the end of \<open>s\<close>, or 0.\<close>

definition ws_len_end :: "string \<Rightarrow> nat" where
  "ws_len_end s =
     (let n = length s in
      if 1 \<le> n \<and> ws_len (drop (n - 1) s) = 1 then 1
      else if 2 \<le> n \<and> ws_len (drop (n - 2) s) = 2 then 2
      else if 3 \<le> n \<and> ws_len (drop (n - 3) s) = 3 then 3
      else 0)"

fun lstrip_ws_aux :: "nat \<Rightarrow> string \<Rightarrow> string" where
  "lstrip_ws_aux k [] = []"
| "lstrip_ws_aux (Suc k) (c # cs) = lstrip_ws_aux k cs"
| "lstrip_ws_aux 0 (c # cs) =
     (let n = ws_len (c # cs) in if n = 0 then c # cs else lstrip_ws_aux (n - 1) cs)"

text \<open>One step per character removed; \<open>length s\<close> steps always suffice.\<close>

fun rstrip_ws_aux :: "nat \<Rightarrow> string \<Rightarrow> string" where
  "rstrip_ws_aux 0 s = s"
| "rstrip_ws_aux (Suc n) s =
     (let k = ws_len_end s in if k = 0 then s else rstrip_ws_aux n (take (length s - k) s))"

text \<open>\<^verbatim>\<open>s.strip()\<close>\<close>

definition strip_ws :: "string \<Rightarrow> string" where
  "strip_ws s = (let t = lstrip_ws_aux 0 s in rstrip_ws_aux (length t) t)"

text \<open>\<^verbatim>\<open>s.split()\<close>: the maximal runs of non-whitespace characters.\<close>

fun split_ws_aux :: "nat \<Rightarrow> string \<Rightarrow> string \<Rightarrow> string list" where
  "split_ws_aux k cur [] = (if cur = [] then [] else [cur])"
| "split_ws_aux (Suc k) cur (c # cs) = split_ws_aux k cur cs"
| "split_ws_aux 0 cur (c # cs) =
     (let n = ws_len (c # cs) in
      if n = 0 then split_ws_aux 0 (cur @ [c]) cs
      else (if cur = [] then [] else [cur]) @ split_ws_aux (n - 1) [] cs)"

definition split_ws :: "string \<Rightarrow> string list" where
  "split_ws s = split_ws_aux 0 [] s"

subsection \<open>\<^verbatim>\<open>int(s)\<close>\<close>

text \<open>
  \<^verbatim>\<open>int(s)\<close> on an ASCII \<^verbatim>\<open>str\<close>: the whitespace of C (\<^verbatim>\<open>Py_ISSPACE\<close>: tab, LF, VT,
  FF, CR and space; not U+001C..U+001F) is skipped on both sides, then come an optional
  sign and decimal digits, with single underscores allowed between digits. Anything
  else raises \<^verbatim>\<open>ValueError\<close>. On a \<^verbatim>\<open>str\<close> that is not ASCII Python also accepts the
  spaces and decimal digits of other scripts, and (from 3.11) it refuses more than 4300
  digits; on those inputs the model answers \<open>IntNotModelled\<close>.
\<close>

definition is_c_space :: "char \<Rightarrow> bool" where
  "is_c_space c = ((9 \<le> byte c \<and> byte c \<le> 13) \<or> byte c = 32)"

definition strip_c_space :: "string \<Rightarrow> string" where
  "strip_c_space s = rev (dropWhile is_c_space (rev (dropWhile is_c_space s)))"

datatype int_result = IntOk int | IntValueError | IntNotModelled

definition is_digit :: "char \<Rightarrow> bool" where
  "is_digit c = (48 \<le> byte c \<and> byte c \<le> 57)"

fun digits_value :: "string \<Rightarrow> nat \<Rightarrow> bool \<Rightarrow> nat option" where
  "digits_value [] acc prev_digit = (if prev_digit then Some acc else None)"
| "digits_value (c # cs) acc prev_digit =
     (if is_digit c then digits_value cs (10 * acc + (byte c - 48)) True
      else if c = CHR ''_'' \<and> prev_digit then digits_value cs acc False
      else None)"

definition py_int :: "string \<Rightarrow> int_result" where
  "py_int s =
     (if list_ex (\<lambda>c. 128 \<le> byte c) s then IntNotModelled
      else
        let t = strip_c_space s;
            neg = (case t of [] \<Rightarrow> False | c # _ \<Rightarrow> c = CHR ''-'');
            ds = (case t of [] \<Rightarrow> [] | c # r \<Rightarrow> if c = CHR ''-'' \<or> c = CHR ''+'' then r else t)
        in case digits_value ds 0 False of
             None \<Rightarrow> IntValueError
           | Some n \<Rightarrow>
               if 4300 < length (filter is_digit ds) then IntNotModelled
               else IntOk (if neg then - int n else int n))"

subsection \<open>\<^verbatim>\<open>urllib.parse.parse_qs\<close>\<close>

text \<open>
  The standard library's query parser as \<^verbatim>\<open>Request\<close> calls it: separator \<^verbatim>\<open>&\<close>,
  \<^verbatim>\<open>keep_blank_values=False\<close>, \<^verbatim>\<open>strict_parsing=False\<close>, \<^verbatim>\<open>encoding='utf-8'\<close>,
  \<^verbatim>\<open>errors='replace'\<close>, no limit on the number of fields (CPython 3.10 and later).
\<close>

definition hexval :: "char \<Rightarrow> nat option" where
  "hexval c =
     (let b = byte c in
      if 48 \<le> b \<and> b \<le> 57 then Some (b - 48)
      else if 65 \<le> b \<and> b \<le> 70 then Some (b - 55)
      else if 97 \<le> b \<and> b \<le> 102 then Some (b - 87)
      else None)"

text \<open>
  \<^verbatim>\<open>unquote_to_bytes\<close>: \<^verbatim>\<open>%\<close> followed by two hexadecimal digits is one byte; any other
  \<^verbatim>\<open>%\<close> stays.
\<close>

fun unquote_to_bytes :: "string \<Rightarrow> string" where
  "unquote_to_bytes [] = []"
| "unquote_to_bytes [c] = [c]"
| "unquote_to_bytes [c, a] = c # unquote_to_bytes [a]"
| "unquote_to_bytes (c # a # b # rest) =
     (if c = CHR ''%'' then
        (case (hexval a, hexval b) of
           (Some x, Some y) \<Rightarrow> char_of (16 * x + y) # unquote_to_bytes rest
         | _ \<Rightarrow> c # unquote_to_bytes (a # b # rest))
      else c # unquote_to_bytes (a # b # rest))"

text \<open>The maximal runs of elements on which \<open>P\<close> has the same value.\<close>

fun runs :: "('a \<Rightarrow> bool) \<Rightarrow> 'a list \<Rightarrow> (bool \<times> 'a list) list" where
  "runs P [] = []"
| "runs P (x # xs) =
     (case runs P xs of
        [] \<Rightarrow> [(P x, [x])]
      | (b, r) # rs \<Rightarrow> if b = P x then (b, x # r) # rs else (P x, [x]) # (b, r) # rs)"

text \<open>
  \<^verbatim>\<open>unquote\<close> on a \<^verbatim>\<open>str\<close>: unchanged when it has no \<^verbatim>\<open>%\<close>; else every maximal run
  of ASCII characters is unquoted to bytes and decoded as UTF-8 with
  \<^verbatim>\<open>errors='replace'\<close>, and the other characters stay.
\<close>

definition unquote :: "string \<Rightarrow> string" where
  "unquote s =
     (if CHR ''%'' \<notin> set s then s
      else concat (map (\<lambda>(ascii, r). if ascii then decode_replace (unquote_to_bytes r) else r)
                       (runs (\<lambda>c. byte c < 128) s)))"

text \<open>One \<^verbatim>\<open>name=value\<close> field of \<^verbatim>\<open>parse_qsl\<close>: the pair it appends, if any.\<close>

definition parse_field :: "string \<Rightarrow> (string \<times> string) option" where
  "parse_field name_value =
     (if name_value = [] then None
      else case split1 (CHR ''='') name_value of
             None \<Rightarrow> None
           | Some (n, v) \<Rightarrow>
               if v = [] then None
               else Some (unquote (plus_to_space n), unquote (plus_to_space v)))"

definition parse_qsl :: "string \<Rightarrow> (string \<times> string) list" where
  "parse_qsl qs = List.map_filter parse_field (split_on (CHR ''&'') qs)"

text \<open>The loop of \<^verbatim>\<open>parse_qs\<close> that collects the values of each name, in a dict.\<close>

fun collect :: "(string \<times> string list) list \<Rightarrow> (string \<times> string) list
    \<Rightarrow> (string \<times> string list) list" where
  "collect parsed_result [] = parsed_result"
| "collect parsed_result ((name, val) # pairs) =
     collect (case map_of parsed_result name of
                Some vs \<Rightarrow> AList.update name (vs @ [val]) parsed_result
              | None \<Rightarrow> AList.update name [val] parsed_result)
             pairs"

definition parse_qs :: "string \<Rightarrow> (string \<times> string list) list" where
  "parse_qs qs = collect [] (parse_qsl qs)"

subsection \<open>Request\<close>

text \<open>The values \<^verbatim>\<open>json.loads\<close> returns.\<close>

datatype json =
    JNull | JBool bool | JInt int | JFloat string | JStr string
  | JArray "json list" | JObject "(string \<times> json) list"

text \<open>A value of the query map: a single string, or the list of all values.\<close>

datatype qvalue = Scalar string | Sequence "string list"

datatype body =
    BodyNone
  | BodyJson json
  | BodyText string
  | BodyForm "(string \<times> string list) list"
  | BodyRaw string

text \<open>
  The fields of \<^verbatim>\<open>Request\<close>; \<open>req_method\<close>, \<open>req_headers\<close> and \<open>req_body\<close> are the
  attributes \<^verbatim>\<open>method\<close>, \<^verbatim>\<open>headers\<close> and \<^verbatim>\<open>body\<close>.
\<close>

record request =
  req_method :: string
  raw_path :: string
  path :: string
  query :: "(string \<times> qvalue) list"
  req_headers :: "(string \<times> string) list"
  params :: "(string \<times> string) list"
  client_addr :: string
  req_body :: body

text \<open>
  What the server takes from outside the repository: the JSON parser (\<open>None\<close> when
  \<^verbatim>\<open>json.loads\<close> raises), the MIME table (\<^verbatim>\<open>mimetypes.guess_type(path)[0]\<close>) and the file
  system (\<^verbatim>\<open>os.path.isdir\<close>; \<^verbatim>\<open>open(path, 'rb').read()\<close>, which returns the content or
  raises).
\<close>

record env =
  json_loads :: "string \<Rightarrow> json option"
  guess_type :: "string \<Rightarrow> string option"
  isdir :: "string \<Rightarrow> bool"
  open_rb :: "string \<Rightarrow> py_exc + string"

text \<open>\<^verbatim>\<open>values[0] if len(values) == 1 else values\<close>\<close>

definition unwrap :: "string list \<Rightarrow> qvalue" where
  "unwrap vals = (case vals of [v] \<Rightarrow> Scalar v | _ \<Rightarrow> Sequence vals)"

definition query_of :: "string \<Rightarrow> (string \<times> qvalue) list" where
  "query_of query_string =
     (if query_string = [] then []
      else fold (\<lambda>(key, vals) q. AList.update key (unwrap vals) q) (parse_qs query_string) [])"

definition header_get :: "(string \<times> string) list \<Rightarrow> string \<Rightarrow> string \<Rightarrow> string" where
  "header_get hs name dflt = (case map_of hs name of Some v \<Rightarrow> v | None \<Rightarrow> dflt)"

definition decode_body :: "env \<Rightarrow> (string \<times> string) list \<Rightarrow> string \<Rightarrow> body" where
  "decode_body E hs b =
     (if b = [] then BodyNone
      else
        let content_type = header_get hs ''Content-Type'' [] in
        if sublist ''application/json'' content_type then
          (case json_loads E b of
             Some v \<Rightarrow> BodyJson v
           | None \<Rightarrow> BodyText (decode_ignore b))
        else if sublist ''application/x-www-form-urlencoded'' content_type then
          BodyForm (parse_qs (decode_ignore b))
        else BodyRaw b)"

definition Request :: "env \<Rightarrow> string \<Rightarrow> string \<Rightarrow> (string \<times> string) list \<Rightarrow> string \<Rightarrow> string
    \<Rightarrow> request" where
  "Request E meth pth hs b addr =
     (let (path_only, query_string) =
            (case split1 (CHR ''?'') pth of Some (p, q) \<Rightarrow> (p, q) | None \<Rightarrow> (pth, []))
      in \<lparr>req_method = meth, raw_path = pth, path = path_only, query = query_of query_string,
          req_headers = hs, params = [], client_addr = addr,
          req_body = decode_body E hs b\<rparr>)"

subsection \<open>Decimal text of integers: \<^verbatim>\<open>str(n)\<close>\<close>

definition digit_char :: "nat \<Rightarrow> char" where
  "digit_char d = ''0123456789'' ! d"

fun str_nat :: "nat \<Rightarrow> string" where
  "str_nat n = (if n < 10 then [digit_char n] else str_nat (n div 10) @ [digit_char (n mod 10)])"

declare str_nat.simps [simp del]

definition str_int :: "int \<Rightarrow> string" where
  "str_int i = (if i < 0 then CHR ''-'' # str_nat (nat (- i)) else str_nat (nat i))"

subsection \<open>The client socket\<close>

text \<open>
  The socket records the argument of every \<^verbatim>\<open>sendall\<close> call that succeeded, in order.
  \<open>budget\<close> is the number of further calls that will succeed (\<open>None\<close>: every call does);
  once it is used up each call raises \<open>fault\<close>. A call on a closed socket raises
  \<^verbatim>\<open>OSError\<close>. A call either writes its whole argument or nothing.
\<close>

record sock =
  wire :: "string list"
  budget :: "nat option"
  fault :: py_exc
  closed :: bool

definition sendall :: "sock \<Rightarrow> string \<Rightarrow> py_exc option \<times> sock" where
  "sendall s b =
     (if closed s then (Some (PyExc OSError ''[Errno 9] Bad file descriptor''), s)
      else case budget s of
             None \<Rightarrow> (None, s\<lparr>wire := wire s @ [b]\<rparr>)
           | Some 0 \<Rightarrow> (Some (fault s), s)
           | Some (Suc n) \<Rightarrow> (None, s\<lparr>wire := wire s @ [b], budget := Some n\<rparr>))"

text \<open>The calls of one \<^verbatim>\<open>try\<close> block, in order; the first that raises ends the block.\<close>

fun sendall_seq :: "sock \<Rightarrow> string list \<Rightarrow> py_exc option \<times> sock" where
  "sendall_seq s [] = (None, s)"
| "sendall_seq s (b # bs) =
     (case sendall s b of
        (Some e, s') \<Rightarrow> (Some e, s')
      | (None, s') \<Rightarrow> sendall_seq s' bs)"


definition close :: "sock \<Rightarrow> sock" where
  "close s = s\<lparr>closed := True\<rparr>"

subsection \<open>Response\<close>

text \<open>
  The status code is a Python \<^verbatim>\<open>int\<close>; header names and values are \<^verbatim>\<open>str\<close> objects, given
  by their UTF-8 encodings.
\<close>

record response =
  client_sock :: sock
  status_code :: int
  status_text :: string
  headers :: "(string \<times> string) list"
  sent :: bool

definition Response :: "sock \<Rightarrow> response" where
  "Response s =
     \<lparr>client_sock = s, status_code = 200, status_text = ''OK'', headers = [], sent = False\<rparr>"

definition reason_phrases :: "(int \<times> string) list" where
  "reason_phrases =
     [(200, ''OK''), (201, ''Created''), (202, ''Accepted''), (204, ''No Content''),
      (301, ''Moved Permanently''), (302, ''Found''), (400, ''Bad Request''),
      (401, ''Unauthorized''), (403, ''Forbidden''), (404, ''Not Found''),
      (500, ''Internal Server Error'')]"

definition status :: "response \<Rightarrow> int \<Rightarrow> response" where
  "status r code =
     r\<lparr>status_code := code,
       status_text := (case map_of reason_phrases code of Some t \<Rightarrow> t | None \<Rightarrow> [])\<rparr>"

definition set_header :: "response \<Rightarrow> string \<Rightarrow> string \<Rightarrow> response" where
  "set_header r name val = r\<lparr>headers := AList.update name val (headers r)\<rparr>"

text \<open>
  The argument of \<^verbatim>\<open>send\<close>: \<^verbatim>\<open>None\<close>, a \<^verbatim>\<open>bytes\<close>/\<^verbatim>\<open>bytearray\<close> object, or any other
  object. For another object \<^verbatim>\<open>str(data).encode('utf-8')\<close> either gives bytes
  (\<open>PyStr\<close>, which carries them) or raises (\<open>PyRaising\<close>, which carries the exception):
  \<^verbatim>\<open>str\<close> itself may raise, and a text with a lone surrogate has no UTF-8 encoding
  (\<^verbatim>\<open>UnicodeEncodeError\<close>).
\<close>

datatype send_data = PyNone | PyBytes string | PyStr string | PyRaising py_exc

text \<open>The conversion of the argument to bytes, which stands before the \<^verbatim>\<open>try\<close>.\<close>

fun to_bytes :: "send_data \<Rightarrow> py_exc + string" where
  "to_bytes PyNone = Inr []"
| "to_bytes (PyBytes b) = Inr b"
| "to_bytes (PyStr s) = Inr s"
| "to_bytes (PyRaising e) = Inl e"

definition CRLF :: string where
  "CRLF = [CHR 0x0D, CHR 0x0A]"

definition status_line_of :: "response \<Rightarrow> string" where
  "status_line_of r = ''HTTP/1.1 '' @ str_int (status_code r) @ '' '' @ status_text r @ CRLF"

definition header_line :: "string \<times> string \<Rightarrow> string" where
  "header_line nv = fst nv @ '': '' @ snd nv @ CRLF"

text \<open>The headers as \<^verbatim>\<open>send\<close> leaves them before it writes.\<close>

definition final_headers :: "(string \<times> string) list \<Rightarrow> string \<Rightarrow> (string \<times> string) list" where
  "final_headers hs body_bytes =
     (let h1 = (if map_of hs ''Content-Type'' = None
                then AList.update ''Content-Type'' ''text/plain; charset=utf-8'' hs else hs);
          h2 = (if map_of h1 ''Access-Control-Allow-Origin'' = None
                then AList.update ''Access-Control-Allow-Origin'' ''*'' h1 else h1);
          h3 = AList.update ''Connection'' ''close'' h2
      in AList.update ''Content-Length'' (str_nat (length body_bytes)) h3)"

text \<open>The \<^verbatim>\<open>sendall\<close> calls of the \<^verbatim>\<open>try\<close> block of \<^verbatim>\<open>send\<close>, in order.\<close>

definition send_chunks :: "response \<Rightarrow> string \<Rightarrow> string list" where
  "send_chunks r body_bytes =
     status_line_of r # map header_line (final_headers (headers r) body_bytes)
       @ [CRLF] @ (if body_bytes = [] then [] else [body_bytes])"

definition send :: "response \<Rightarrow> send_data \<Rightarrow> py_exc option \<times> response" where
  "send r data =
     (if sent r then (None, r)
      else
        case to_bytes data of
          Inl x \<Rightarrow> (Some x, r)
        | Inr body_bytes \<Rightarrow>
            let (e, s') = sendall_seq (client_sock r) (send_chunks r body_bytes);
                r' = r\<lparr>headers := final_headers (headers r) body_bytes,
                       client_sock := s', sent := True\<rparr>
            in case e of
                 None \<Rightarrow> (None, r')
               | Some x \<Rightarrow> if exc_class_of x = BrokenPipeError then (None, r') else (Some x, r'))"


text \<open>
  The argument of \<^verbatim>\<open>json\<close>: the text \<^verbatim>\<open>json.dumps(obj)\<close> when serialisation succeeds
  (\<open>None\<close> when it raises; the text is ASCII, \<^verbatim>\<open>ensure_ascii\<close> being on), and what
  \<^verbatim>\<open>str(obj)\<close> does in the \<^verbatim>\<open>except\<close> branch: it raises, or it returns a text, which has
  a UTF-8 encoding or not.
\<close>

datatype str_result = StrText string | StrNoEncoding py_exc | StrRaises py_exc

record json_arg =
  dumps :: "string option"
  str_of :: str_result

text \<open>The body \<^verbatim>\<open>json\<close> hands to \<^verbatim>\<open>send\<close>, or the exception of \<^verbatim>\<open>str(obj)\<close>.\<close>

definition json_body :: "json_arg \<Rightarrow> py_exc + send_data" where
  "json_body obj =
     (case dumps obj of
        Some s \<Rightarrow> Inr (PyStr s)
      | None \<Rightarrow>
          (case str_of obj of
             StrText s \<Rightarrow> Inr (PyStr s)
           | StrNoEncoding x \<Rightarrow> Inr (PyRaising x)
           | StrRaises x \<Rightarrow> Inl x))"

definition json :: "response \<Rightarrow> json_arg \<Rightarrow> py_exc option \<times> response" where
  "json r obj =
     (case json_body obj of
        Inl x \<Rightarrow> (Some x, r)
      | Inr body \<Rightarrow>
          send (r\<lparr>headers := AList.update ''Content-Type'' ''application/json; charset=utf-8''
                                  (headers r)\<rparr>)
               body)"

subsection \<open>Handlers\<close>

text \<open>
  A handler is user code. It is modelled by what it does to the response: the calls it
  makes on it, in order, possibly ending by raising. A call of \<^verbatim>\<open>send\<close> or \<^verbatim>\<open>json\<close>
  that raises ends the handler with that exception.
\<close>

datatype action =
    Status int
  | SetHeader string string
  | Send send_data
  | Json json_arg
  | Raise py_exc

type_synonym handler = "request \<Rightarrow> action list"

fun run_handler :: "action list \<Rightarrow> response \<Rightarrow> py_exc option \<times> response" where
  "run_handler [] r = (None, r)"
| "run_handler (Status code # acts) r = run_handler acts (status r code)"
| "run_handler (SetHeader name val # acts) r = run_handler acts (set_header r name val)"
| "run_handler (Send data # acts) r =
     (case send r data of
        (Some e, r') \<Rightarrow> (Some e, r')
      | (None, r') \<Rightarrow> run_handler acts r')"
| "run_handler (Json obj # acts) r =
     (case json r obj of
        (Some e, r') \<Rightarrow> (Some e, r')
      | (None, r') \<Rightarrow> run_handler acts r')"
| "run_handler (Raise e # acts) r = (Some e, r)"

subsection \<open>Route templates\<close>

text \<open>
  \<^verbatim>\<open>add_route\<close> writes a regular expression: \<^verbatim>\<open>^/$\<close> for the template \<^verbatim>\<open>/\<close>, and
  otherwise \<^verbatim>\<open>^\<close>, then for each part of the template either \<^verbatim>\<open>/(?P<name>[^/]+)\<close>
  (\<open>Param name\<close>) or \<^verbatim>\<open>/\<close> and the escaped part (\<open>Lit part\<close>), then \<^verbatim>\<open>/?$\<close>.
  The compiled expression is represented by that list of parts.
\<close>

datatype seg = Lit string | Param string

datatype matcher = Root | Segs "seg list"

text \<open>
  \<^verbatim>\<open>re.compile\<close> raises \<^verbatim>\<open>re.error\<close> when a group name is not an identifier or is used
  twice. A name with a \<^verbatim>\<open>>\<close> in it ends the group name early and the rest is read as
  pattern text; whether a name with non-ASCII characters is an identifier depends on
  the Unicode tables. Both are left out: \<open>NotModelled\<close>.
\<close>

datatype reg_error = ReError | NotModelled

definition is_ident_start :: "char \<Rightarrow> bool" where
  "is_ident_start c =
     (let b = byte c in (65 \<le> b \<and> b \<le> 90) \<or> (97 \<le> b \<and> b \<le> 122) \<or> b = 95)"

definition is_identifier :: "string \<Rightarrow> bool" where
  "is_identifier s =
     (case s of
        [] \<Rightarrow> False
      | c # cs \<Rightarrow> is_ident_start c \<and> list_all (\<lambda>d. is_ident_start d \<or> is_digit d) cs)"

fun compile_parts :: "string list \<Rightarrow> string list \<Rightarrow> reg_error + seg list" where
  "compile_parts [] seen = Inr []"
| "compile_parts (part # parts) seen =
     (if prefix '':'' part then
        (let name = tl part in
         if list_ex (\<lambda>c. 128 \<le> byte c) name then Inl NotModelled
         else if \<not> is_identifier (takeWhile (\<lambda>c. c \<noteq> CHR ''>'') name) then Inl ReError
         else if CHR ''>'' \<in> set name then Inl NotModelled
         else if name \<in> set seen then Inl ReError
         else (case compile_parts parts (name # seen) of
                 Inl e \<Rightarrow> Inl e
               | Inr segs \<Rightarrow> Inr (Param name # segs)))
      else (case compile_parts parts seen of
              Inl e \<Rightarrow> Inl e
            | Inr segs \<Rightarrow> Inr (Lit part # segs)))"

definition LF :: char where
  "LF = CHR 0x0A"

text \<open>
  The end of the pattern, \<^verbatim>\<open>/?$\<close>: an optional slash, then the end of the string or the
  newline that ends the string.
\<close>

definition at_end :: "string \<Rightarrow> bool" where
  "at_end p = (p = [] \<or> p = ''/'' \<or> p = [LF] \<or> p = [CHR ''/'', LF])"

text \<open>
  \<^verbatim>\<open>regex.match(path)\<close> and \<^verbatim>\<open>match.groupdict()\<close>. A literal part is matched
  character by character. \<^verbatim>\<open>[^/]+\<close> is greedy and what follows it starts with a slash
  or is the end of the pattern, so a group takes the whole segment up to the next slash.
\<close>

fun match_segs :: "seg list \<Rightarrow> string \<Rightarrow> (string \<times> string) list option" where
  "match_segs [] p = (if at_end p then Some [] else None)"
| "match_segs (Lit s # segs) p =
     (if prefix (CHR ''/'' # s) p then match_segs segs (drop (Suc (length s)) p) else None)"
| "match_segs (Param name # segs) p =
     (case p of
        [] \<Rightarrow> None
      | c # rest \<Rightarrow>
          if c \<noteq> CHR ''/'' then None
          else
            let v = takeWhile (\<lambda>d. d \<noteq> CHR ''/'') rest in
            if v = [] then None
            else (case match_segs segs (dropWhile (\<lambda>d. d \<noteq> CHR ''/'') rest) of
                    None \<Rightarrow> None
                  | Some groups \<Rightarrow> Some ((name, v) # groups)))"

fun re_match :: "matcher \<Rightarrow> string \<Rightarrow> (string \<times> string) list option" where
  "re_match Root p = (if p = ''/'' \<or> p = [CHR ''/'', LF] then Some [] else None)"
| "re_match (Segs segs) p = match_segs segs p"

text \<open>The group names of a pattern, in order: the keys of \<^verbatim>\<open>groupdict()\<close>.\<close>

fun group_names :: "seg list \<Rightarrow> string list" where
  "group_names [] = []"
| "group_names (Lit s # segs) = group_names segs"
| "group_names (Param name # segs) = name # group_names segs"

text \<open>A literal part comes from splitting the template at slashes and has none.\<close>

fun slash_free :: "seg \<Rightarrow> bool" where
  "slash_free (Lit s) = (CHR ''/'' \<notin> set s)"
| "slash_free (Param name) = True"

subsection \<open>MiniExpress\<close>

type_synonym route = "matcher \<times> handler"

record app =
  routes :: "string \<Rightarrow> route list option"
  static_routes :: "(string \<times> string) list"

definition MiniExpress :: app where
  "MiniExpress = \<lparr>routes = Map.empty, static_routes = []\<rparr>"

definition compile_template :: "string \<Rightarrow> reg_error + matcher" where
  "compile_template template =
     (if template = ''/'' then Inr Root
      else case compile_parts (split_on (CHR ''/'') (strip (CHR ''/'') template)) [] of
             Inl e \<Rightarrow> Inl e
           | Inr segs \<Rightarrow> Inr (Segs segs))"

definition route_list_of :: "app \<Rightarrow> string \<Rightarrow> route list" where
  "route_list_of A meth = (case routes A meth of Some l \<Rightarrow> l | None \<Rightarrow> [])"

definition add_route :: "app \<Rightarrow> string \<Rightarrow> string \<Rightarrow> handler \<Rightarrow> reg_error + app" where
  "add_route A meth template h =
     (case compile_template template of
        Inl e \<Rightarrow> Inl e
      | Inr regex \<Rightarrow> Inr (A\<lparr>routes := (routes A)(meth \<mapsto> route_list_of A meth @ [(regex, h)])\<rparr>))"

definition use_static :: "app \<Rightarrow> string \<Rightarrow> string \<Rightarrow> app" where
  "use_static A pre directory =
     (let p1 = (if prefix ''/'' pre then pre else ''/'' @ pre);
          p2 = rstrip (CHR ''/'') p1
      in A\<lparr>static_routes := static_routes A @ [(p2, directory)]\<rparr>)"

subsection \<open>Static files\<close>

text \<open>\<^verbatim>\<open>os.path.join(a, b)\<close> of \<^verbatim>\<open>posixpath\<close>.\<close>

definition path_join :: "string \<Rightarrow> string \<Rightarrow> string" where
  "path_join a b =
     (if prefix ''/'' b then b
      else if a = [] \<or> last a = CHR ''/'' then a @ b
      else a @ ''/'' @ b)"

text \<open>The file a request path names under a static mapping.\<close>

definition static_file_path :: "env \<Rightarrow> string \<Rightarrow> string \<Rightarrow> string \<Rightarrow> string" where
  "static_file_path E pre directory pth =
     (let rel_path = drop (length pre) pth;
          file_path = path_join directory (lstrip (CHR ''/'') rel_path)
      in if isdir E file_path then path_join file_path ''index.html'' else file_path)"

definition content_type_of :: "env \<Rightarrow> string \<Rightarrow> string" where
  "content_type_of E file_path =
     (case guess_type E file_path of
        None \<Rightarrow> ''application/octet-stream''
      | Some ctype \<Rightarrow> if ctype = [] then ''application/octet-stream'' else ctype)"

text \<open>
  The body of the loop for the first mapping whose prefix matches: the exception that
  leaves \<^verbatim>\<open>handle_request\<close> if any, \<^verbatim>\<open>served\<close>, and the response.
\<close>

definition serve_static :: "env \<Rightarrow> string \<Rightarrow> string \<Rightarrow> request \<Rightarrow> response
    \<Rightarrow> py_exc option \<times> bool \<times> response" where
  "serve_static E pre directory req res =
     (let file_path = static_file_path E pre directory (path req);
          (e, r1) =
            (case open_rb E file_path of
               Inl x \<Rightarrow> (Some x, res)
             | Inr content \<Rightarrow>
                 send (res\<lparr>headers := AList.update ''Content-Type''
                                        (content_type_of E file_path) (headers res)\<rparr>)
                      (PyBytes content))
      in case e of
           None \<Rightarrow> (None, True, r1)
         | Some x \<Rightarrow>
             if exc_class_of x = FileNotFoundError then (None, False, r1)
             else if is_Exception x then
               (case send (status r1 500) (PyStr (''Error reading static file: '' @ exc_str x)) of
                  (Some y, r2) \<Rightarrow> (Some y, False, r2)
                | (None, r2) \<Rightarrow> (None, True, r2))
             else (Some x, False, r1))"

fun static_phase :: "env \<Rightarrow> (string \<times> string) list \<Rightarrow> request \<Rightarrow> response
    \<Rightarrow> py_exc option \<times> bool \<times> response" where
  "static_phase E [] req res = (None, False, res)"
| "static_phase E ((pre, directory) # rest) req res =
     (if prefix pre (path req) then serve_static E pre directory req res
      else static_phase E rest req res)"

subsection \<open>The dispatcher\<close>

datatype outcome =
    Returned               \<comment> \<open>\<^verbatim>\<open>handle_request\<close> returned\<close>
  | Propagated py_exc      \<comment> \<open>an exception left \<^verbatim>\<open>handle_request\<close>\<close>
  | OutsideModel           \<comment> \<open>an input the model of \<^verbatim>\<open>int\<close> or \<^verbatim>\<open>read\<close> does not cover\<close>

definition close_conn :: "response \<Rightarrow> response" where
  "close_conn r = r\<lparr>client_sock := close (client_sock r)\<rparr>"

text \<open>
  A matched route: the \<^verbatim>\<open>try\<close> statement around the handler, then
  \<^verbatim>\<open>client_sock.close()\<close>. \<open>after_handler\<close> is what follows the handler's run (the
  \<^verbatim>\<open>except\<close> and \<^verbatim>\<open>finally\<close> blocks and the close), given how the run ended. An
  exception raised in the \<^verbatim>\<open>except\<close> or the \<^verbatim>\<open>finally\<close> block leaves the function, and
  the socket is not closed.
\<close>

definition after_handler :: "py_exc option \<times> response \<Rightarrow> outcome \<times> response" where
  "after_handler outcome_of_run =
     (let (e1, r1) = outcome_of_run;
          (e2, r2) =
            (case e1 of
               None \<Rightarrow> (None, r1)
             | Some x \<Rightarrow>
                 if is_Exception x then send (status r1 500) (PyStr ''Internal Server Error'')
                 else (Some x, r1));
          (e3, r3) = (if sent r2 then (None, r2) else send r2 PyNone)
      in case e3 of
           Some y \<Rightarrow> (Propagated y, r3)
         | None \<Rightarrow>
             (case e2 of
                Some y \<Rightarrow> (Propagated y, r3)
              | None \<Rightarrow> (Returned, close_conn r3)))"

definition invoke :: "handler \<Rightarrow> request \<Rightarrow> response \<Rightarrow> outcome \<times> response" where
  "invoke h req res = after_handler (run_handler (h req) res)"

fun route_loop :: "route list \<Rightarrow> request \<Rightarrow> response \<Rightarrow> outcome \<times> response" where
  "route_loop [] req res =
     (case send (status res 404) (PyStr ''Not Found'') of
        (Some y, r) \<Rightarrow> (Propagated y, r)
      | (None, r) \<Rightarrow> (Returned, close_conn r))"
| "route_loop ((regex, h) # rest) req res =
     (case re_match regex (path req) of
        None \<Rightarrow> route_loop rest req res
      | Some groupdict \<Rightarrow> invoke h (req\<lparr>params := groupdict\<rparr>) res)"

definition preflight :: "response \<Rightarrow> outcome \<times> response" where
  "preflight res =
     (let r1 = status res 200;
          r2 = r1\<lparr>headers :=
                    AList.update ''Access-Control-Allow-Headers'' ''Content-Type''
                      (AList.update ''Access-Control-Allow-Methods'' ''GET,POST,PUT,DELETE,OPTIONS''
                        (AList.update ''Access-Control-Allow-Origin'' ''*'' (headers r1)))\<rparr>
      in case send r2 (PyStr []) of
           (Some y, r) \<Rightarrow> (Propagated y, r)
         | (None, r) \<Rightarrow> (Returned, close_conn r))"

text \<open>\<^verbatim>\<open>handle_request\<close> from the point where the request and response objects exist.\<close>

definition dispatch :: "env \<Rightarrow> app \<Rightarrow> request \<Rightarrow> response \<Rightarrow> outcome \<times> response" where
  "dispatch E A req res =
     (if req_method req = ''OPTIONS'' then preflight res
      else case static_phase E (static_routes A) req res of
             (Some y, served, r) \<Rightarrow> (Propagated y, r)
           | (None, True, r) \<Rightarrow> (Returned, close_conn r)
           | (None, False, r) \<Rightarrow> route_loop (route_list_of A (req_method req)) req r)"

subsection \<open>Reading the request\<close>

text \<open>
  \<open>rfile\<close> is the bytes the client sends until it closes its side.
  \<^verbatim>\<open>readline\<close> returns the bytes up to and with the next LF, or what is left.
\<close>

definition readline :: "string \<Rightarrow> string \<times> string" where
  "readline rfile =
     (if LF \<in> set rfile
      then (takeWhile (\<lambda>c. c \<noteq> LF) rfile @ [LF], tl (dropWhile (\<lambda>c. c \<noteq> LF) rfile))
      else (rfile, []))"

function read_headers :: "(string \<times> string) list \<Rightarrow> string
    \<Rightarrow> py_exc + ((string \<times> string) list \<times> string)" where
  "read_headers hs rfile =
     (case readline rfile of
        (raw, rest) \<Rightarrow>
          (case decode_strict raw of
             None \<Rightarrow> Inl (PyExc UnicodeDecodeError ''invalid utf-8'')
           | Some hline \<Rightarrow>
               if hline = [] \<or> hline = CRLF \<or> hline = [LF] then Inr (hs, rest)
               else read_headers
                      (case split1 (CHR '':'') hline of
                         Some (name, val) \<Rightarrow> AList.update (strip_ws name) (strip_ws val) hs
                       | None \<Rightarrow> hs)
                      rest))"
  by pat_completeness auto

lemma readline_shorter:
  "readline rfile = (raw, rest) \<Longrightarrow> raw \<noteq> [] \<Longrightarrow> length rest < length rfile"
proof (cases "LF \<in> set rfile")
  case True
  assume a: "readline rfile = (raw, rest)"
  from True have "dropWhile (\<lambda>c. c \<noteq> LF) rfile \<noteq> []"
    by (simp add: dropWhile_eq_Nil_conv)
  then have pos: "0 < length (dropWhile (\<lambda>c. c \<noteq> LF) rfile)"
    by simp
  have le: "length (dropWhile (\<lambda>c. c \<noteq> LF) rfile) \<le> length rfile"
    by (rule length_dropWhile_le)
  from a True have "length rest = length (dropWhile (\<lambda>c. c \<noteq> LF) rfile) - 1"
    by (auto simp: readline_def)
  with pos le show ?thesis by linarith
next
  case False
  assume "readline rfile = (raw, rest)" "raw \<noteq> []"
  with False show ?thesis by (auto simp: readline_def)
qed

termination read_headers
proof (relation "measure (\<lambda>(hs, rfile). length rfile)")
  show "wf (measure (\<lambda>(hs, rfile). length rfile))" by simp
next
  fix rfile xa y x2 :: string
  fix hs' :: "(string \<times> string) list"
  assume "(xa, y) = readline rfile" "decode_strict xa = Some x2"
    "\<not> (x2 = [] \<or> x2 = CRLF \<or> x2 = [LF])"
  then have "readline rfile = (xa, y)" "xa \<noteq> []"
    by (auto simp: decode_strict_def split: if_splits)
  then have "length y < length rfile" by (rule readline_shorter)
  then show "((case split1 (CHR '':'') x2 of
                 None \<Rightarrow> hs'
               | Some (name, val) \<Rightarrow> AList.update (strip_ws name) (strip_ws val) hs', y),
              hs', rfile) \<in> measure (\<lambda>(hs, rfile). length rfile)"
    by simp
qed

declare read_headers.simps [simp del]

text \<open>
  The body: \<^verbatim>\<open>int(headers['Content-Length'])\<close>, then \<^verbatim>\<open>rfile.read(length)\<close>, which
  returns at most \<open>length\<close> bytes, everything for \<open>-1\<close>, and raises \<^verbatim>\<open>ValueError\<close>
  below \<open>-1\<close>. What \<^verbatim>\<open>read\<close> does with a length of \<open>2\<^sup>3\<^sup>1\<close> or more depends on the
  platform and its memory, and is left out.
\<close>

datatype body_read = BodyBytes string | BodyRaises py_exc | BodyNotModelled

definition read_body :: "(string \<times> string) list \<Rightarrow> string \<Rightarrow> body_read" where
  "read_body hs rfile =
     (case map_of hs ''Content-Length'' of
        None \<Rightarrow> BodyBytes []
      | Some v \<Rightarrow>
          (case py_int v of
             IntValueError \<Rightarrow> BodyRaises (PyExc ValueError ''invalid literal for int() with base 10'')
           | IntNotModelled \<Rightarrow> BodyNotModelled
           | IntOk len \<Rightarrow>
               if len < - 1 then
                 BodyRaises (PyExc ValueError ''read length must be non-negative or -1'')
               else if len = - 1 then BodyBytes rfile
               else if 2 ^ 31 \<le> len then BodyNotModelled
               else BodyBytes (take (nat len) rfile)))"

text \<open>
  \<^verbatim>\<open>handle_request\<close>: the bytes the client sends, the socket to answer on, and what is
  left of both: how the function ended and the socket.
\<close>

definition handle_request :: "env \<Rightarrow> app \<Rightarrow> string \<Rightarrow> sock \<Rightarrow> string \<Rightarrow> outcome \<times> sock" where
  "handle_request E A rfile client addr =
     (case readline rfile of
        (raw, rest) \<Rightarrow>
          (case decode_strict raw of
             None \<Rightarrow> (Returned, close client)
           | Some line \<Rightarrow>
               if line = [] then (Returned, close client)
               else
                 (case split_ws (strip_ws line) of
                    [meth, pth, version] \<Rightarrow>
                      (case read_headers [] rest of
                         Inl e \<Rightarrow> (Propagated e, client)
                       | Inr (hs, rest') \<Rightarrow>
                           (case read_body hs rest' of
                              BodyRaises e \<Rightarrow> (Propagated e, client)
                            | BodyNotModelled \<Rightarrow> (OutsideModel, client)
                            | BodyBytes b \<Rightarrow>
                                (case dispatch E A (Request E meth pth hs b addr) (Response client)
                                 of (out, res) \<Rightarrow> (out, client_sock res))))
                  | _ \<Rightarrow> (Returned, close client))))"

subsection \<open>The demonstration application\<close>

text \<open>
  From \<^verbatim>\<open>src/project/app.py\<close>, as the calls they make on the response: \<^verbatim>\<open>home\<close>, and
  \<^verbatim>\<open>get_data_by_id\<close> for an id that is not stored.
\<close>

definition home :: handler where
  "home req = [Send (PyStr ''Welcome to MiniExpress!'')]"

definition not_found_item :: handler where
  "not_found_item req = [Status 404, Send (PyStr ''Item not found'')]"

subsection \<open>The query map, as the specification words it\<close>

text \<open>
  The values a query string gives to the key \<open>k\<close>: for each field between \<^verbatim>\<open>&\<close> that has
  an \<^verbatim>\<open>=\<close> and a non-blank value and whose decoded name is \<open>k\<close>, the decoded value, in
  order. Decoding is \<^verbatim>\<open>+\<close> to space, then percent-decoding.
\<close>

definition values_of :: "string \<Rightarrow> string \<Rightarrow> string list" where
  "values_of qs k =
     concat (map (\<lambda>field.
                    case split1 (CHR ''='') field of
                      None \<Rightarrow> []
                    | Some (n, v) \<Rightarrow>
                        if v \<noteq> [] \<and> unquote (plus_to_space n) = k
                        then [unquote (plus_to_space v)] else [])
                 (split_on (CHR ''&'') qs))"

subsection \<open>Registration sequences\<close>

text \<open>
  The application registers its routes by a sequence of \<^verbatim>\<open>add_route\<close> calls (the
  decorators of \<^verbatim>\<open>app.py\<close>); the first call that raises ends it.
\<close>

fun register_all :: "app \<Rightarrow> (string \<times> string \<times> handler) list \<Rightarrow> reg_error + app" where
  "register_all A [] = Inr A"
| "register_all A ((meth, template, h) # regs) =
     (case add_route A meth template h of
        Inl e \<Rightarrow> Inl e
      | Inr A' \<Rightarrow> register_all A' regs)"

text \<open>The registrations made for one method, compiled, in the order they were made.\<close>

fun routes_for :: "string \<Rightarrow> (string \<times> string \<times> handler) list \<Rightarrow> route list" where
  "routes_for meth [] = []"
| "routes_for meth ((m, template, h) # regs) =
     (if m = meth
      then (case compile_template template of
              Inl e \<Rightarrow> routes_for meth regs
            | Inr regex \<Rightarrow> (regex, h) # routes_for meth regs)
      else routes_for meth regs)"

subsection \<open>Sample sockets\<close>

text \<open>A socket that takes every write, and one that breaks after two writes.\<close>

definition sock0 :: sock where
  "sock0 = \<lparr>wire = [], budget = None, fault = PyExc BrokenPipeError [], closed = False\<rparr>"

definition sock_reset :: sock where
  "sock_reset =
     \<lparr>wire = [], budget = Some 2, fault = PyExc OSError ''[Errno 104] Connection reset by peer'',
      closed = False\<rparr>"

subsection \<open>Sample requests\<close>

text \<open>A \<^verbatim>\<open>GET\<close> request for a path, with no query, headers or body.\<close>

definition get_request :: "string \<Rightarrow> request" where
  "get_request p =
     \<lparr>req_method = ''GET'', raw_path = p, path = p, query = [], req_headers = [], params = [],
      client_addr = ''127.0.0.1'', req_body = BodyNone\<rparr>"

subsection \<open>Sample environments\<close>

text \<open>
  A file system with no file at all, and one whose only file is
  \<^verbatim>\<open>./backup/a.txt\<close>; a JSON parser that refuses every input.
\<close>

definition no_files :: env where
  "no_files =
     \<lparr>json_loads = (\<lambda>b. None), guess_type = (\<lambda>p. None), isdir = (\<lambda>p. False),
      open_rb = (\<lambda>p. Inl (PyExc FileNotFoundError ''[Errno 2] No such file or directory''))\<rparr>"


text \<open>A JSON parser that knows the one document \<^verbatim>\<open>{"x":1}\<close>.\<close>

definition x1_doc :: string where
  "x1_doc = ''{'' @ [CHR 0x22] @ ''x'' @ [CHR 0x22] @ '':1}''"

definition x1_only :: env where
  "x1_only =
     no_files\<lparr>json_loads := (\<lambda>b. if b = x1_doc then Some (JObject [(''x'', JInt 1)]) else None)\<rparr>"

subsection \<open>Sample byte streams\<close>

text \<open>
  A request whose \<^verbatim>\<open>Content-Length\<close> is not a number, and one with a header line that
  is not UTF-8.
\<close>

definition bad_length_request :: string where
  "bad_length_request =
     ''POST /data HTTP/1.1'' @ CRLF @ ''Content-Length: abc'' @ CRLF @ CRLF"

definition bad_header_request :: string where
  "bad_header_request =
     ''GET / HTTP/1.1'' @ CRLF @ ''X-Name: '' @ [CHR 0xFF] @ CRLF @ CRLF"

text \<open>A request for a path that climbs out of the static directory.\<close>

definition climbing_request :: string where
  "climbing_request = ''GET /static/../server.py HTTP/1.1'' @ CRLF @ CRLF"

subsection \<open>Where a file path points\<close>

text \<open>
  The components of a path after \<^verbatim>\<open>.\<close> and \<^verbatim>\<open>..\<close> are resolved
  (\<^verbatim>\<open>posixpath.normpath\<close>): empty components and \<^verbatim>\<open>.\<close> go; \<^verbatim>\<open>..\<close> removes the
  component before it, is dropped at the root of an absolute path, and stays at the
  front of a relative one.
\<close>

fun norm_comps :: "bool \<Rightarrow> string list \<Rightarrow> string list \<Rightarrow> string list" where
  "norm_comps absolute acc [] = acc"
| "norm_comps absolute acc (c # cs) =
     (if c = [] \<or> c = ''.'' then norm_comps absolute acc cs
      else if c = ''..'' then
        (if acc \<noteq> [] \<and> last acc \<noteq> ''..'' then norm_comps absolute (butlast acc) cs
         else if absolute then norm_comps absolute acc cs
         else norm_comps absolute (acc @ [c]) cs)
      else norm_comps absolute (acc @ [c]) cs)"

definition normpath :: "string \<Rightarrow> bool \<times> string list" where
  "normpath p = (prefix ''/'' p, norm_comps (prefix ''/'' p) [] (split_on (CHR ''/'') p))"

text \<open>The file \<open>p\<close> lies in the directory \<open>d\<close> or below it.\<close>

definition inside :: "string \<Rightarrow> string \<Rightarrow> bool" where
  "inside d p = (fst (normpath d) = fst (normpath p) \<and> prefix (snd (normpath d)) (snd (normpath p)))"

text \<open>
  A file system whose only file is \<^verbatim>\<open>server.py\<close>, beside the directory \<^verbatim>\<open>static\<close>, with
  the MIME type of Python sources.
\<close>

definition source_beside :: env where
  "source_beside =
     no_files\<lparr>guess_type := (\<lambda>p. if suffix ''.py'' p then Some ''text/x-python'' else None),
              open_rb := (\<lambda>p. if snd (normpath p) = [''server.py''] then Inr ''import socket''
                               else Inl (PyExc FileNotFoundError
                                           ''[Errno 2] No such file or directory''))\<rparr>"

subsection \<open>Sample handlers\<close>

text \<open>
  A handler that raises before it sends, one that raises after it has sent, and one
  that ends with \<^verbatim>\<open>sys.exit()\<close>.
\<close>

definition failing :: handler where
  "failing req = [SetHeader ''X-Trace'' ''1'', Raise (PyExc ValueError ''bad input'')]"



text \<open>
  A handler that sends a text with a lone surrogate (as \<^verbatim>\<open>json.loads\<close> returns for
  \<^verbatim>\<open>"\ud800"\<close>) and then goes on.
\<close>

definition no_encoding :: py_exc where
  "no_encoding = PyExc UnicodeEncodeError ''surrogates not allowed''"

definition echoes_surrogate :: handler where
  "echoes_surrogate req = [Send (PyRaising no_encoding), Send (PyStr ''never reached'')]"

subsection \<open>A file tree\<close>








subsection \<open>Sample applications\<close>



section \<open>Properties\<close>

subsection \<open>The socket and \<^verbatim>\<open>send\<close>\<close>


lemma sendall_seq_closed: "closed (snd (sendall_seq s bs)) = closed s"
  by (induction bs arbitrary: s)
     (auto simp: sendall_def split: option.splits nat.splits prod.splits)


lemma send_sent: "to_bytes d = Inr b \<Longrightarrow> sent (snd (send r d))"
  by (simp add: send_def Let_def split: prod.splits option.splits)

lemma send_raising: "\<not> sent r \<Longrightarrow> to_bytes d = Inl x \<Longrightarrow> send r d = (Some x, r)"
  by (simp add: send_def)

lemma send_noop: "sent r \<Longrightarrow> send r d = (None, r)"
  by (simp add: send_def)

lemma send_headers:
  "\<not> sent r \<Longrightarrow> to_bytes d = Inr b \<Longrightarrow>
   headers (snd (send r d)) = final_headers (headers r) b"
  by (simp add: send_def Let_def split: prod.splits option.splits)


lemma send_sock:
  "\<not> sent r \<Longrightarrow> to_bytes d = Inr b \<Longrightarrow>
   client_sock (snd (send r d)) = snd (sendall_seq (client_sock r) (send_chunks r b))"
  by (simp add: send_def Let_def split: prod.splits option.splits)

lemma send_closed: "closed (client_sock (snd (send r d))) = closed (client_sock r)"
proof (cases "sent r")
  case True
  then show ?thesis by (simp add: send_noop)
next
  case False
  then show ?thesis
    by (cases "to_bytes d") (simp_all add: send_raising send_sock sendall_seq_closed)
qed



lemma json_sent:
  "json_body obj = Inr d \<Longrightarrow> to_bytes d = Inr b \<Longrightarrow> sent (snd (json r obj))"
  by (simp add: json_def send_sent)

lemma json_after_sent:
  "sent r \<Longrightarrow>
   json r obj =
     (case json_body obj of
        Inl x \<Rightarrow> (Some x, r)
      | Inr body \<Rightarrow>
          (None, r\<lparr>headers := AList.update ''Content-Type'' ''application/json; charset=utf-8''
                                    (headers r)\<rparr>))"
  by (simp add: json_def send_def split: sum.splits)









text \<open>
  C3 (as amended). A \<^verbatim>\<open>send\<close> or \<^verbatim>\<open>json\<close> whose argument is converted to bytes marks the
  response sent, whatever the socket did (every write taken, \<^verbatim>\<open>BrokenPipeError\<close>, any
  other exception, a closed socket). On a sent response a further \<^verbatim>\<open>send\<close> changes
  nothing and raises nothing, whatever its argument. A further \<^verbatim>\<open>json\<close> writes nothing
  and leaves the socket, the status and the flag alone; it raises only if \<^verbatim>\<open>str(obj)\<close>
  does, and otherwise it has already stored its \<^verbatim>\<open>Content-Type\<close> in the header dict
  before it reaches the guard in \<^verbatim>\<open>send\<close>. But a \<^verbatim>\<open>send\<close> on an unsent response whose
  argument cannot be converted raises before anything is written and leaves the response
  as it was, unsent: the conversion stands before the \<^verbatim>\<open>try\<close> whose \<^verbatim>\<open>finally\<close> sets the
  flag.
\<close>

theorem C3_finalize_once:
  "(to_bytes d = Inr b \<longrightarrow> sent (snd (send r d)))
   \<and> (json_body obj = Inr d \<and> to_bytes d = Inr b \<longrightarrow> sent (snd (json r obj)))
   \<and> (sent r \<longrightarrow> send r d = (None, r))
   \<and> (sent r \<longrightarrow>
        json r obj =
          (case json_body obj of
             Inl x \<Rightarrow> (Some x, r)
           | Inr body \<Rightarrow>
               (None, r\<lparr>headers := AList.update ''Content-Type''
                                       ''application/json; charset=utf-8'' (headers r)\<rparr>)))
   \<and> (\<not> sent r \<and> to_bytes d = Inl x \<longrightarrow> send r d = (Some x, r))"
  using send_sent [of d b r] json_sent [of obj d b r] send_noop [of r d]
    json_after_sent [of r obj] send_raising [of r d x]
  by blast

lemma send_on_sock_reset:
  "send (Response sock_reset) (PyStr ''hi'')
     = (Some (PyExc OSError ''[Errno 104] Connection reset by peer''),
        \<lparr>client_sock =
           \<lparr>wire = [''HTTP/1.1 200 OK'' @ CRLF,
                    ''Content-Type: text/plain; charset=utf-8'' @ CRLF],
            budget = Some 0,
            fault = PyExc OSError ''[Errno 104] Connection reset by peer'',
            closed = False\<rparr>,
         status_code = 200, status_text = ''OK'',
         headers = [(''Content-Type'', ''text/plain; charset=utf-8''),
                    (''Access-Control-Allow-Origin'', ''*''),
                    (''Connection'', ''close''), (''Content-Length'', ''2'')],
         sent = True\<rparr>)"
  by (simp add: send_def Response_def sock_reset_def send_chunks_def final_headers_def
      status_line_of_def header_line_def str_int_def str_nat.simps digit_char_def sendall_def)

text \<open>
  The socket breaks after two writes with an exception \<^verbatim>\<open>send\<close> does not catch: the
  response is sent all the same, and the second \<^verbatim>\<open>send\<close> is a no-op.
\<close>

theorem C3_finalize_once_witness:
  "to_bytes (PyStr ''hi'') = Inr ''hi''
   \<and> sent (snd (send (Response sock_reset) (PyStr ''hi'')))
   \<and> send (snd (send (Response sock_reset) (PyStr ''hi''))) (PyStr ''again'')
        = (None, snd (send (Response sock_reset) (PyStr ''hi'')))
   \<and> wire (client_sock (snd (send (Response sock_reset) (PyStr ''hi''))))
        = [''HTTP/1.1 200 OK'' @ CRLF, ''Content-Type: text/plain; charset=utf-8'' @ CRLF]"
proof -
  have t: "to_bytes (PyStr ''hi'') = Inr ''hi''" by simp
  have s: "sent (snd (send (Response sock_reset) (PyStr ''hi'')))"
    using t C3_finalize_once [of "PyStr ''hi''" "''hi''" "Response sock_reset"] by blast
  have n: "send (snd (send (Response sock_reset) (PyStr ''hi''))) (PyStr ''again'')
        = (None, snd (send (Response sock_reset) (PyStr ''hi'')))"
    using s C3_finalize_once [of "PyStr ''again''" _ "snd (send (Response sock_reset) (PyStr ''hi''))"]
    by blast
  have w: "wire (client_sock (snd (send (Response sock_reset) (PyStr ''hi''))))
        = [''HTTP/1.1 200 OK'' @ CRLF, ''Content-Type: text/plain; charset=utf-8'' @ CRLF]"
    by (simp add: send_on_sock_reset)
  from t s n w show ?thesis by blast
qed

text \<open>
  C3 as stated fails in two places. Where the later call is \<^verbatim>\<open>json\<close>: after
  \<^verbatim>\<open>send('x')\<close> the header dict says \<^verbatim>\<open>text/plain\<close> (and so did the wire); a \<^verbatim>\<open>json\<close>
  call after it rewrites the stored \<^verbatim>\<open>Content-Type\<close>, so it is not a no-op on the
  headers. And where the first call cannot convert its argument: it raises, nothing is
  written, the response is still unsent, and the second \<^verbatim>\<open>send\<close> is the one that writes.
\<close>

theorem C3_later_json_changes_headers:
  "map_of (headers (snd (send (Response sock0) (PyStr ''x'')))) ''Content-Type''
     = Some ''text/plain; charset=utf-8''
   \<and> map_of (headers (snd (json (snd (send (Response sock0) (PyStr ''x'')))
                                 \<lparr>dumps = Some ''{}'', str_of = StrText ''{}''\<rparr>))) ''Content-Type''
     = Some ''application/json; charset=utf-8''
   \<and> send (Response sock0) (PyRaising no_encoding) = (Some no_encoding, Response sock0)
   \<and> \<not> sent (snd (send (Response sock0) (PyRaising no_encoding)))
   \<and> wire (client_sock (snd (send (snd (send (Response sock0) (PyRaising no_encoding)))
                                 (PyStr ''x''))))
     = [''HTTP/1.1 200 OK'' @ CRLF,
        ''Content-Type: text/plain; charset=utf-8'' @ CRLF,
        ''Access-Control-Allow-Origin: *'' @ CRLF,
        ''Connection: close'' @ CRLF,
        ''Content-Length: 1'' @ CRLF,
        CRLF,
        ''x'']"
proof -
  have ns: "\<not> sent (Response sock0)" by (simp add: Response_def)
  have tb: "to_bytes (PyStr ''x'') = Inr ''x''" by simp
  have h: "headers (snd (send (Response sock0) (PyStr ''x'')))
      = [(''Content-Type'', ''text/plain; charset=utf-8''),
         (''Access-Control-Allow-Origin'', ''*''),
         (''Connection'', ''close''), (''Content-Length'', ''1'')]"
    by (simp add: send_headers [OF ns tb])
       (simp add: final_headers_def Response_def str_nat.simps digit_char_def)
  have j: "json (snd (send (Response sock0) (PyStr ''x''))) \<lparr>dumps = Some ''{}'', str_of = StrText ''{}''\<rparr>
      = (None, (snd (send (Response sock0) (PyStr ''x'')))
                 \<lparr>headers := AList.update ''Content-Type'' ''application/json; charset=utf-8''
                               (headers (snd (send (Response sock0) (PyStr ''x''))))\<rparr>)"
    using json_after_sent [OF send_sent [OF tb], of "Response sock0"
        "\<lparr>dumps = Some ''{}'', str_of = StrText ''{}''\<rparr>"]
    by (simp add: json_body_def)
  have r: "send (Response sock0) (PyRaising no_encoding) = (Some no_encoding, Response sock0)"
    by (rule send_raising [OF ns]) simp
  have w: "wire (client_sock (snd (send (Response sock0) (PyStr ''x''))))
     = [''HTTP/1.1 200 OK'' @ CRLF,
        ''Content-Type: text/plain; charset=utf-8'' @ CRLF,
        ''Access-Control-Allow-Origin: *'' @ CRLF,
        ''Connection: close'' @ CRLF,
        ''Content-Length: 1'' @ CRLF,
        CRLF,
        ''x'']"
    by (simp add: send_def Response_def sock0_def send_chunks_def final_headers_def
        status_line_of_def header_line_def str_int_def str_nat.simps digit_char_def sendall_def)
  show ?thesis unfolding j r using ns w by (simp add: h)
qed

subsection \<open>Handlers and the matched route\<close>

lemma status_keeps [simp]:
  "client_sock (status r c) = client_sock r" "sent (status r c) = sent r"
  "headers (status r c) = headers r"
  by (simp_all add: status_def)

lemma set_header_keeps [simp]:
  "client_sock (set_header r n v) = client_sock r" "sent (set_header r n v) = sent r"
  by (simp_all add: set_header_def)

lemma close_conn_keeps [simp]:
  "wire (client_sock (close_conn r)) = wire (client_sock r)"
  "sent (close_conn r) = sent r"
  "status_code (close_conn r) = status_code r"
  "closed (client_sock (close_conn r))"
  by (simp_all add: close_conn_def close_def)





text \<open>What follows the handler's run, case by case.\<close>

lemma after_handler_sent:
  assumes "after_handler (e1, r1) = (out, r')" and "sent r1"
  shows "wire (client_sock r') = wire (client_sock r1) \<and> sent r'
     \<and> out = (case e1 of
                None \<Rightarrow> Returned
              | Some x \<Rightarrow> if is_Exception x then Returned else Propagated x)
     \<and> (out = Returned \<longrightarrow> closed (client_sock r'))"
  using assms
  by (auto simp: after_handler_def send_noop split: option.splits if_splits)



text \<open>The definitions a concrete \<^verbatim>\<open>send\<close> unfolds to.\<close>

lemmas eval_send = send_def Response_def sock0_def send_chunks_def final_headers_def
  status_line_of_def header_line_def str_int_def str_nat.simps digit_char_def sendall_def
  status_def reason_phrases_def set_header_def Let_def


text \<open>The route \<^verbatim>\<open>/boom\<close> with a handler that raises \<^verbatim>\<open>ValueError\<close>, evaluated.\<close>

lemma route_failing:
  "route_loop [(Segs [Lit ''boom''], failing)] (get_request ''/boom'') (Response sock0)
   = (Returned,
      \<lparr>client_sock =
         \<lparr>wire = [''HTTP/1.1 500 Internal Server Error'' @ CRLF,
                  ''X-Trace: 1'' @ CRLF,
                  ''Content-Type: text/plain; charset=utf-8'' @ CRLF,
                  ''Access-Control-Allow-Origin: *'' @ CRLF,
                  ''Connection: close'' @ CRLF,
                  ''Content-Length: 21'' @ CRLF,
                  CRLF,
                  ''Internal Server Error''],
          budget = None, fault = PyExc BrokenPipeError [], closed = True\<rparr>,
       status_code = 500, status_text = ''Internal Server Error'',
       headers = [(''X-Trace'', ''1''), (''Content-Type'', ''text/plain; charset=utf-8''),
                  (''Access-Control-Allow-Origin'', ''*''), (''Connection'', ''close''),
                  (''Content-Length'', ''21'')],
       sent = True\<rparr>)"
  by (simp add: eval_send invoke_def after_handler_def failing_def get_request_def at_end_def
      is_Exception_def close_conn_def close_def)

text \<open>
  A handler whose \<^verbatim>\<open>send\<close> cannot convert its argument: the exception ends the handler
  with the response unsent, and the dispatcher answers 500.
\<close>

lemma route_echoes_surrogate:
  "run_handler (echoes_surrogate req) (Response sock0) = (Some no_encoding, Response sock0)"
  "wire (client_sock (snd (route_loop [(Segs [Lit ''echo''], echoes_surrogate)]
                                     (get_request ''/echo'') (Response sock0))))
     = [''HTTP/1.1 500 Internal Server Error'' @ CRLF,
        ''Content-Type: text/plain; charset=utf-8'' @ CRLF,
        ''Access-Control-Allow-Origin: *'' @ CRLF,
        ''Connection: close'' @ CRLF,
        ''Content-Length: 21'' @ CRLF,
        CRLF,
        ''Internal Server Error'']"
  by (simp_all add: eval_send invoke_def after_handler_def echoes_surrogate_def no_encoding_def
      get_request_def at_end_def is_Exception_def close_conn_def close_def)



subsection \<open>Route order and static mappings\<close>

lemma add_route_lists:
  "add_route A meth template h = Inr A' \<Longrightarrow>
   route_list_of A' m =
     route_list_of A m @ routes_for m [(meth, template, h)]
   \<and> static_routes A' = static_routes A"
  by (auto simp: add_route_def route_list_of_def split: sum.splits)

lemma register_all_lists:
  "register_all A regs = Inr A' \<Longrightarrow>
   route_list_of A' m = route_list_of A m @ routes_for m regs
   \<and> static_routes A' = static_routes A"
proof (induction regs arbitrary: A)
  case Nil
  then show ?case by simp
next
  case (Cons reg regs)
  obtain meth template h where reg: "reg = (meth, template, h)" by (cases reg)
  from Cons.prems reg obtain A1 where a1: "add_route A meth template h = Inr A1"
    and rest: "register_all A1 regs = Inr A'"
    by (auto split: sum.splits)
  from add_route_lists [OF a1, of m] Cons.IH [OF rest] reg show ?case
    by (auto split: sum.splits)
qed

lemma route_loop_first_match:
  "list_all (\<lambda>(regex', h'). re_match regex' (path req) = None) pre \<Longrightarrow>
   re_match regex (path req) = Some g \<Longrightarrow>
   route_loop (pre @ (regex, h) # post) req res
     = after_handler (run_handler (h (req\<lparr>params := g\<rparr>)) res)"
  by (induction pre) (auto simp: invoke_def)




text \<open>
  C4. Build the application by any sequence of \<^verbatim>\<open>add_route\<close> calls from one that has no
  route yet. The routes the dispatcher scans for a request are those registered for the
  request's own method, in registration order. If the first of them whose pattern
  matches the path is \<open>(regex, h)\<close>, then the route loop runs the handler \<open>h\<close> on the
  request with the groups of that match as \<^verbatim>\<open>params\<close>, and its result is what the
  \<^verbatim>\<open>except\<close>, \<^verbatim>\<open>finally\<close> and close steps make of that run, whatever was registered
  after it; in particular what that handler sent is what stands on the wire. The same
  holds of the whole dispatcher when the request is not \<^verbatim>\<open>OPTIONS\<close> and no static file
  was served.
\<close>

theorem C4_first_registered_wins:
  assumes "routes A0 = Map.empty"
    and "register_all A0 regs = Inr A"
    and "routes_for (req_method req) regs = pre @ (regex, h) # post"
    and "list_all (\<lambda>(regex', h'). re_match regex' (path req) = None) pre"
    and "re_match regex (path req) = Some g"
  shows "route_list_of A (req_method req) = routes_for (req_method req) regs
     \<and> route_loop (route_list_of A (req_method req)) req res
         = after_handler (run_handler (h (req\<lparr>params := g\<rparr>)) res)
     \<and> (sent (snd (run_handler (h (req\<lparr>params := g\<rparr>)) res)) \<longrightarrow>
          wire (client_sock (snd (route_loop (route_list_of A (req_method req)) req res)))
            = wire (client_sock (snd (run_handler (h (req\<lparr>params := g\<rparr>)) res))))
     \<and> (req_method req \<noteq> ''OPTIONS''
          \<and> static_phase E (static_routes A) req res = (None, False, res1)
          \<longrightarrow> dispatch E A req res
                = after_handler (run_handler (h (req\<lparr>params := g\<rparr>)) res1))"
proof -
  have "route_list_of A0 (req_method req) = []"
    using assms(1) by (simp add: route_list_of_def)
  with register_all_lists [OF assms(2), of "req_method req"]
  have l: "route_list_of A (req_method req) = routes_for (req_method req) regs"
    by simp
  have r: "\<And>r. route_loop (route_list_of A (req_method req)) req r
      = after_handler (run_handler (h (req\<lparr>params := g\<rparr>)) r)"
    unfolding l assms(3) by (rule route_loop_first_match [OF assms(4) assms(5)])
  have w: "sent (snd (run_handler (h (req\<lparr>params := g\<rparr>)) res)) \<longrightarrow>
          wire (client_sock (snd (after_handler (run_handler (h (req\<lparr>params := g\<rparr>)) res))))
            = wire (client_sock (snd (run_handler (h (req\<lparr>params := g\<rparr>)) res)))"
  proof
    assume s: "sent (snd (run_handler (h (req\<lparr>params := g\<rparr>)) res))"
    obtain e1 r1 where p: "run_handler (h (req\<lparr>params := g\<rparr>)) res = (e1, r1)"
      by (cases "run_handler (h (req\<lparr>params := g\<rparr>)) res")
    obtain out r' where q: "after_handler (e1, r1) = (out, r')"
      by (cases "after_handler (e1, r1)")
    from s p have "sent r1" by simp
    from after_handler_sent [OF q this] p q
    show "wire (client_sock (snd (after_handler (run_handler (h (req\<lparr>params := g\<rparr>)) res))))
            = wire (client_sock (snd (run_handler (h (req\<lparr>params := g\<rparr>)) res)))"
      by simp
  qed
  show ?thesis using l r w by (simp add: dispatch_def)
qed

text \<open>
  Two \<^verbatim>\<open>GET\<close> templates that both match \<^verbatim>\<open>/user/me\<close>, with a \<^verbatim>\<open>POST\<close> route registered
  between them: the first registered handler runs, and its text is what the client
  gets, not the 404 of the handler registered later.
\<close>

lemma compile_user_id: "compile_template ''/user/:id'' = Inr (Segs [Lit ''user'', Param ''id''])"
  by code_simp

lemma compile_user_me: "compile_template ''/user/me'' = Inr (Segs [Lit ''user'', Lit ''me''])"
  by code_simp

lemma match_user_me:
  "re_match (Segs [Lit ''user'', Param ''id'']) ''/user/me'' = Some [(''id'', ''me'')]"
  "re_match (Segs [Lit ''user'', Lit ''me'']) ''/user/me'' = Some []"
  by code_simp+

lemma home_run:
  "run_handler (home req) (Response sock0)
   = (None,
      \<lparr>client_sock =
         \<lparr>wire = [''HTTP/1.1 200 OK'' @ CRLF,
                  ''Content-Type: text/plain; charset=utf-8'' @ CRLF,
                  ''Access-Control-Allow-Origin: *'' @ CRLF,
                  ''Connection: close'' @ CRLF,
                  ''Content-Length: 23'' @ CRLF,
                  CRLF,
                  ''Welcome to MiniExpress!''],
          budget = None, fault = PyExc BrokenPipeError [], closed = False\<rparr>,
       status_code = 200, status_text = ''OK'',
       headers = [(''Content-Type'', ''text/plain; charset=utf-8''),
                  (''Access-Control-Allow-Origin'', ''*''), (''Connection'', ''close''),
                  (''Content-Length'', ''23'')],
       sent = True\<rparr>)"
  by (simp add: home_def eval_send)

theorem C4_first_registered_wins_witness:
  "\<exists>A. register_all MiniExpress
          [(''GET'', ''/user/:id'', home), (''POST'', ''/user/me'', failing),
           (''GET'', ''/user/me'', not_found_item)] = Inr A
      \<and> re_match (Segs [Lit ''user'', Param ''id'']) (path (get_request ''/user/me''))
           = Some [(''id'', ''me'')]
      \<and> re_match (Segs [Lit ''user'', Lit ''me'']) (path (get_request ''/user/me'')) = Some []
      \<and> wire (client_sock (snd (route_loop (route_list_of A (req_method (get_request ''/user/me'')))
                                    (get_request ''/user/me'') (Response sock0))))
           = [''HTTP/1.1 200 OK'' @ CRLF,
              ''Content-Type: text/plain; charset=utf-8'' @ CRLF,
              ''Access-Control-Allow-Origin: *'' @ CRLF,
              ''Connection: close'' @ CRLF,
              ''Content-Length: 23'' @ CRLF,
              CRLF,
              ''Welcome to MiniExpress!'']"
proof -
  let ?regs = "[(''GET'', ''/user/:id'', home), (''POST'', ''/user/me'', failing),
           (''GET'', ''/user/me'', not_found_item)]"
  let ?req = "get_request ''/user/me''"
  let ?run = "run_handler (home (?req\<lparr>params := [(''id'', ''me'')]\<rparr>)) (Response sock0)"
  have h1: "routes MiniExpress = Map.empty" by (simp add: MiniExpress_def)
  have "\<exists>A. register_all MiniExpress ?regs = Inr A"
    by (simp add: add_route_def compile_user_id compile_user_me)
  then obtain A where h2: "register_all MiniExpress ?regs = Inr A" ..
  have h3: "routes_for (req_method ?req) ?regs
      = [] @ (Segs [Lit ''user'', Param ''id''], home) # [(Segs [Lit ''user'', Lit ''me''], not_found_item)]"
    by (simp add: get_request_def compile_user_id compile_user_me)
  have h4: "list_all (\<lambda>(regex', h'). re_match regex' (path ?req) = None) []" by simp
  have h5: "re_match (Segs [Lit ''user'', Param ''id'']) (path ?req) = Some [(''id'', ''me'')]"
    by (simp only: get_request_def request.simps match_user_me)
  have h6: "re_match (Segs [Lit ''user'', Lit ''me'']) (path ?req) = Some []"
    by (simp only: get_request_def request.simps match_user_me)
  have s: "sent (snd ?run)" by (simp add: home_run)
  from C4_first_registered_wins [OF h1 h2 h3 h4 h5, of "Response sock0"] s
  have "wire (client_sock (snd (route_loop (route_list_of A (req_method ?req)) ?req (Response sock0))))
           = wire (client_sock (snd ?run))"
    by blast
  then have "wire (client_sock (snd (route_loop (route_list_of A (req_method ?req)) ?req (Response sock0))))
           = [''HTTP/1.1 200 OK'' @ CRLF,
              ''Content-Type: text/plain; charset=utf-8'' @ CRLF,
              ''Access-Control-Allow-Origin: *'' @ CRLF,
              ''Connection: close'' @ CRLF,
              ''Content-Length: 23'' @ CRLF,
              CRLF,
              ''Welcome to MiniExpress!'']"
    by (simp add: home_run)
  with h2 h5 h6 show ?thesis by blast
qed






subsection \<open>Path parameters\<close>

lemma split_on_nonempty: "split_on c s \<noteq> []"
  by (induction s) (auto split: list.splits)

lemma split_on_free: "w \<in> set (split_on c s) \<Longrightarrow> c \<notin> set w"
proof (induction s arbitrary: w)
  case Nil
  then show ?case by simp
next
  case (Cons a s)
  show ?case
  proof (cases "a = c")
    case True
    with Cons show ?thesis by auto
  next
    case False
    obtain x xs where sp: "split_on c s = x # xs"
      using split_on_nonempty [of c s] by (cases "split_on c s") auto
    with Cons.prems False have "w = a # x \<or> w \<in> set xs" by simp
    then show ?thesis
    proof
      assume "w = a # x"
      moreover have "c \<notin> set x" using Cons.IH [of x] sp by simp
      ultimately show ?thesis using False by simp
    next
      assume "w \<in> set xs"
      then show ?thesis using Cons.IH [of w] sp by simp
    qed
  qed
qed

lemma split_on_append: "c \<notin> set s \<Longrightarrow> split_on c (s @ c # r) = s # split_on c r"
  by (induction s) auto

lemma split_on_head: "split_on c s ! 0 = takeWhile (\<lambda>d. d \<noteq> c) s"
proof (induction s)
  case Nil
  show ?case by simp
next
  case (Cons a s)
  obtain x xs where sp: "split_on c s = x # xs"
    using split_on_nonempty [of c s] by (cases "split_on c s") auto
  with Cons show ?case by auto
qed

lemma compile_parts_shape:
  "compile_parts parts seen = Inr segs \<Longrightarrow>
   length segs = length parts
   \<and> (\<forall>i < length parts.
         segs ! i = (if prefix '':'' (parts ! i) then Param (tl (parts ! i)) else Lit (parts ! i)))
   \<and> distinct (group_names segs)
   \<and> set (group_names segs) \<inter> set seen = {}"
proof (induction parts arbitrary: seen segs)
  case Nil
  then show ?case by simp
next
  case (Cons part parts)
  show ?case
  proof (cases "prefix '':'' part")
    case True
    with Cons.prems obtain segs' where
      c: "compile_parts parts (tl part # seen) = Inr segs'" and
      s: "segs = Param (tl part) # segs'" and
      n: "tl part \<notin> set seen"
      by (auto simp: Let_def split: if_splits sum.splits)
    from Cons.IH [OF c] s n True show ?thesis
      by (auto simp: nth_Cons split: nat.splits)
  next
    case False
    with Cons.prems obtain segs' where
      c: "compile_parts parts seen = Inr segs'" and
      s: "segs = Lit part # segs'"
      by (auto split: sum.splits)
    from Cons.IH [OF c] s False show ?thesis
      by (auto simp: nth_Cons split: nat.splits)
  qed
qed

lemma compile_parts_slash_free:
  assumes "compile_parts parts seen = Inr segs" and "\<forall>w \<in> set parts. CHR ''/'' \<notin> set w"
  shows "list_all slash_free segs"
proof -
  from compile_parts_shape [OF assms(1)]
  have len: "length segs = length parts"
    and nth: "\<forall>i < length parts.
         segs ! i = (if prefix '':'' (parts ! i) then Param (tl (parts ! i)) else Lit (parts ! i))"
    by blast+
  have "\<forall>i < length segs. slash_free (segs ! i)"
  proof (intro allI impI)
    fix i assume i: "i < length segs"
    with len have "parts ! i \<in> set parts" by simp
    with assms(2) have "CHR ''/'' \<notin> set (parts ! i)" by blast
    with nth i len show "slash_free (segs ! i)" by simp
  qed
  then show ?thesis by (simp add: list_all_length)
qed

lemma match_segs_starts:
  "match_segs (seg # segs) p = Some g \<Longrightarrow> \<exists>rest. p = CHR ''/'' # rest"
  by (cases seg; cases p) (auto split: if_splits)

lemma match_segs_keys:
  "match_segs segs p = Some g \<Longrightarrow> map fst g = group_names segs"
proof (induction segs arbitrary: p g)
  case Nil
  then show ?case by (simp split: if_splits)
next
  case (Cons seg segs)
  show ?case
  proof (cases seg)
    case (Lit s)
    with Cons show ?thesis by (auto split: if_splits)
  next
    case (Param n)
    with Cons show ?thesis
      by (cases p) (auto simp: Let_def split: if_splits option.splits)
  qed
qed

lemma nth_after_segment:
  "CHR ''/'' \<notin> set s \<Longrightarrow>
   split_on (CHR ''/'') (CHR ''/'' # s @ CHR ''/'' # r) ! Suc (Suc j)
     = split_on (CHR ''/'') (CHR ''/'' # r) ! Suc j
   \<and> length (split_on (CHR ''/'') (CHR ''/'' # s @ CHR ''/'' # r))
     = Suc (length (split_on (CHR ''/'') (CHR ''/'' # r)))"
  by (simp add: split_on_append)

lemma match_segs_param:
  "match_segs segs p = Some g \<Longrightarrow> list_all slash_free segs \<Longrightarrow>
   distinct (group_names segs) \<Longrightarrow> i < length segs \<Longrightarrow> segs ! i = Param name \<Longrightarrow>
   Suc i < length (split_on (CHR ''/'') p)
   \<and> map_of g name = Some (split_on (CHR ''/'') p ! Suc i)
   \<and> split_on (CHR ''/'') p ! Suc i \<noteq> []
   \<and> CHR ''/'' \<notin> set (split_on (CHR ''/'') p ! Suc i)"
proof (induction segs arbitrary: p g i)
  case Nil
  then show ?case by simp
next
  case (Cons seg segs)
  show ?case
  proof (cases seg)
    case (Lit s)
    with Cons.prems obtain j where i: "i = Suc j" by (cases i) auto
    from Lit Cons.prems(1) have pre: "prefix (CHR ''/'' # s) p"
      and m: "match_segs segs (drop (Suc (length s)) p) = Some g"
      by (auto split: if_splits)
    from pre obtain p' where p: "p = CHR ''/'' # s @ p'"
      by (auto simp: prefix_def)
    with m have m': "match_segs segs p' = Some g" by simp
    from i Cons.prems have j: "j < length segs" "segs ! j = Param name" by auto
    then obtain seg' segs' where "segs = seg' # segs'" by (cases segs) auto
    with m' obtain r where p': "p' = CHR ''/'' # r"
      using match_segs_starts by blast
    from Lit Cons.prems(2) have sf: "CHR ''/'' \<notin> set s" "list_all slash_free segs" by auto
    from Lit Cons.prems(3) have d: "distinct (group_names segs)" by simp
    from Cons.IH [OF m' sf(2) d j]
    have ih: "Suc j < length (split_on (CHR ''/'') p')"
      "map_of g name = Some (split_on (CHR ''/'') p' ! Suc j)"
      "split_on (CHR ''/'') p' ! Suc j \<noteq> []"
      "CHR ''/'' \<notin> set (split_on (CHR ''/'') p' ! Suc j)"
      by blast+
    from nth_after_segment [OF sf(1), of r j] p p'
    have "split_on (CHR ''/'') p ! Suc (Suc j) = split_on (CHR ''/'') p' ! Suc j"
      "length (split_on (CHR ''/'') p) = Suc (length (split_on (CHR ''/'') p'))"
      by simp_all
    with ih i show ?thesis by simp
  next
    case (Param n)
    from Param Cons.prems(1) obtain rest g' where
      p: "p = CHR ''/'' # rest" and
      v: "takeWhile (\<lambda>d. d \<noteq> CHR ''/'') rest \<noteq> []" and
      m: "match_segs segs (dropWhile (\<lambda>d. d \<noteq> CHR ''/'') rest) = Some g'" and
      g: "g = (n, takeWhile (\<lambda>d. d \<noteq> CHR ''/'') rest) # g'"
      by (cases p) (auto simp: Let_def split: if_splits option.splits)
    let ?v = "takeWhile (\<lambda>d. d \<noteq> CHR ''/'') rest"
    let ?p' = "dropWhile (\<lambda>d. d \<noteq> CHR ''/'') rest"
    have vfree: "CHR ''/'' \<notin> set ?v"
      by (auto dest: set_takeWhileD)
    have sp: "split_on (CHR ''/'') p = [] # split_on (CHR ''/'') rest"
      using p by simp
    show ?thesis
    proof (cases i)
      case 0
      with Param Cons.prems have nm: "name = n" by simp
      have "split_on (CHR ''/'') rest ! 0 = ?v" by (rule split_on_head)
      moreover have "0 < length (split_on (CHR ''/'') rest)"
        using split_on_nonempty [of "CHR ''/''" rest] by simp
      ultimately show ?thesis using 0 nm g v vfree sp by simp
    next
      case (Suc j)
      with Cons.prems have j: "j < length segs" "segs ! j = Param name" by auto
      then obtain seg' segs' where "segs = seg' # segs'" by (cases segs) auto
      with m obtain r where p': "?p' = CHR ''/'' # r"
        using match_segs_starts by blast
      have "name \<in> set (group_names segs)"
        using j
      proof (induction segs arbitrary: j)
        case Nil
        then show ?case by simp
      next
        case (Cons a segs)
        then show ?case by (cases a; cases j) auto
      qed
      with Param Cons.prems(3) have ne: "name \<noteq> n" by auto
      from Param Cons.prems have sf: "list_all slash_free segs" and d: "distinct (group_names segs)"
        by auto
      from Cons.IH [OF m sf d j]
      have ih: "Suc j < length (split_on (CHR ''/'') ?p')"
        "map_of g' name = Some (split_on (CHR ''/'') ?p' ! Suc j)"
        "split_on (CHR ''/'') ?p' ! Suc j \<noteq> []"
        "CHR ''/'' \<notin> set (split_on (CHR ''/'') ?p' ! Suc j)"
        by blast+
      have "rest = ?v @ ?p'" by simp
      with p p' have pp: "p = CHR ''/'' # ?v @ CHR ''/'' # r" by simp
      from nth_after_segment [OF vfree, of r j] pp p'
      have "split_on (CHR ''/'') p ! Suc (Suc j) = split_on (CHR ''/'') ?p' ! Suc j"
        "length (split_on (CHR ''/'') p) = Suc (length (split_on (CHR ''/'') ?p'))"
        by simp_all
      with ih Suc g ne show ?thesis by simp
    qed
  qed
qed

text \<open>
  C5 (as amended). If the \<open>i\<close>-th part of a template is the placeholder \<^verbatim>\<open>:name\<close> and the
  compiled pattern matches a path, then \<^verbatim>\<open>params[name]\<close> is the segment of the path at
  that place (segment \<open>i + 1\<close> of the path split at slashes, the path starting with a
  slash), taken as it stands in the path, with no percent-decoding; that segment is not
  empty and has no slash; and the handler is called with exactly these groups as
  \<^verbatim>\<open>params\<close>. So a path whose segment at that place is empty does not match.
\<close>

theorem C5_param_is_raw_segment:
  assumes "compile_template template = Inr regex"
    and "i < length (split_on (CHR ''/'') (strip (CHR ''/'') template))"
    and "split_on (CHR ''/'') (strip (CHR ''/'') template) ! i = CHR '':'' # name"
    and "re_match regex p = Some g"
  shows "Suc i < length (split_on (CHR ''/'') p)
     \<and> map_of g name = Some (split_on (CHR ''/'') p ! Suc i)
     \<and> split_on (CHR ''/'') p ! Suc i \<noteq> []
     \<and> CHR ''/'' \<notin> set (split_on (CHR ''/'') p ! Suc i)
     \<and> (\<forall>req h rest res. path req = p \<longrightarrow>
           route_loop ((regex, h) # rest) req res = invoke h (req\<lparr>params := g\<rparr>) res)"
proof -
  let ?parts = "split_on (CHR ''/'') (strip (CHR ''/'') template)"
  have nr: "template \<noteq> ''/''"
  proof
    assume "template = ''/''"
    then have "?parts = [[]]" by (simp add: strip_def lstrip_def rstrip_def)
    with assms(2,3) show False by simp
  qed
  with assms(1) obtain segs where c: "compile_parts ?parts [] = Inr segs"
    and rx: "regex = Segs segs"
    by (auto simp: compile_template_def split: sum.splits)
  from compile_parts_shape [OF c] assms(2,3)
  have len: "i < length segs" and nth: "segs ! i = Param name"
    and d: "distinct (group_names segs)"
    by auto
  have sf: "list_all slash_free segs"
    by (rule compile_parts_slash_free [OF c]) (auto dest: split_on_free)
  from assms(4) rx have m: "match_segs segs p = Some g" by simp
  from match_segs_param [OF m sf d len nth] assms(4) show ?thesis
    by simp
qed

text \<open>\<^verbatim>\<open>/user/:id\<close> on \<^verbatim>\<open>/user/42\<close> and on \<^verbatim>\<open>/user/\<close>.\<close>

lemma compile_user_id_parts:
  "split_on (CHR ''/'') (strip (CHR ''/'') ''/user/:id'') = [''user'', '':id'']"
  by code_simp

lemma match_user_42:
  "re_match (Segs [Lit ''user'', Param ''id'']) ''/user/42'' = Some [(''id'', ''42'')]"
  "re_match (Segs [Lit ''user'', Param ''id'']) ''/user/'' = None"
  "split_on (CHR ''/'') ''/user/42'' = [[], ''user'', ''42'']"
  by code_simp+

theorem C5_param_is_raw_segment_witness:
  "compile_template ''/user/:id'' = Inr (Segs [Lit ''user'', Param ''id''])
   \<and> re_match (Segs [Lit ''user'', Param ''id'']) ''/user/42'' = Some [(''id'', ''42'')]
   \<and> map_of [(''id'', ''42'')] ''id'' = Some (split_on (CHR ''/'') ''/user/42'' ! 2)
   \<and> split_on (CHR ''/'') ''/user/42'' ! 2 = ''42''
   \<and> re_match (Segs [Lit ''user'', Param ''id'']) ''/user/'' = None"
proof -
  have h2: "1 < length (split_on (CHR ''/'') (strip (CHR ''/'') ''/user/:id''))"
    by (simp add: compile_user_id_parts)
  have h3: "split_on (CHR ''/'') (strip (CHR ''/'') ''/user/:id'') ! 1 = CHR '':'' # ''id''"
    by (simp add: compile_user_id_parts)
  from C5_param_is_raw_segment [OF compile_user_id h2 h3 match_user_42(1)]
  have "map_of [(''id'', ''42'')] ''id'' = Some (split_on (CHR ''/'') ''/user/42'' ! Suc 1)"
    by blast
  then show ?thesis
    using compile_user_id match_user_42 by (simp add: numeral_2_eq_2)
qed

text \<open>
  C5 as stated fails on percent-decoding: the path parameter of \<^verbatim>\<open>/user/a%20b\<close> is
  the text \<^verbatim>\<open>a%20b\<close>, while the query parser turns the same text into \<^verbatim>\<open>a b\<close>.
\<close>

theorem C5_no_percent_decoding:
  "compile_template ''/user/:id'' = Inr (Segs [Lit ''user'', Param ''id''])
   \<and> re_match (Segs [Lit ''user'', Param ''id'']) ''/user/a%20b'' = Some [(''id'', ''a%20b'')]
   \<and> query_of ''id=a%20b'' = [(''id'', Scalar ''a b'')]"
  by code_simp

subsection \<open>The query map\<close>

lemma collect_distinct:
  "distinct (map fst acc) \<Longrightarrow> distinct (map fst (collect acc pairs))"
proof (induction pairs arbitrary: acc)
  case Nil
  then show ?case by simp
next
  case (Cons p pairs)
  obtain n v where p: "p = (n, v)" by (cases p)
  show ?case
    unfolding p collect.simps
    by (rule Cons.IH) (auto split: option.splits intro: AList.distinct_update Cons.prems)
qed

lemma collect_lookup:
  "map_of (collect acc pairs) k =
     (if map_of acc k = None \<and> k \<notin> fst ` set pairs then None
      else Some ((case map_of acc k of Some vs \<Rightarrow> vs | None \<Rightarrow> [])
                 @ map snd (filter (\<lambda>nv. fst nv = k) pairs)))"
proof (induction pairs arbitrary: acc)
  case Nil
  show ?case by (auto split: option.splits)
next
  case (Cons p pairs)
  obtain n v where p: "p = (n, v)" by (cases p)
  show ?case
    unfolding p collect.simps Cons.IH
    by (auto simp: AList.update_conv' split: option.splits)
qed

lemma fold_update_lookup:
  "distinct (map fst l) \<Longrightarrow>
   map_of (fold (\<lambda>(key, vals) q. AList.update key (f vals) q) l q0) k =
     (case map_of l k of Some vs \<Rightarrow> Some (f vs) | None \<Rightarrow> map_of q0 k)"
proof (induction l arbitrary: q0)
  case Nil
  show ?case by simp
next
  case (Cons a l)
  obtain k1 v1 where a: "a = (k1, v1)" by (cases a)
  from Cons.prems a have d: "distinct (map fst l)" and nk: "k1 \<notin> fst ` set l" by auto
  from nk have "map_of l k1 = None" by (simp add: map_of_eq_None_iff)
  with Cons.IH [OF d, of "AList.update k1 (f v1) q0"] a show ?case
    by (auto simp: AList.update_conv' split: option.splits)
qed

lemma fold_update_distinct:
  "distinct (map fst q0) \<Longrightarrow>
   distinct (map fst (fold (\<lambda>(key, vals) q. AList.update key (f vals) q) l q0))"
  by (induction l arbitrary: q0) (auto intro: AList.distinct_update)

lemma split_at_first:
  "c \<notin> set p \<Longrightarrow>
   takeWhile (\<lambda>d. d \<noteq> c) (p @ c # r) = p \<and> dropWhile (\<lambda>d. d \<noteq> c) (p @ c # r) = c # r"
  by (induction p) auto

lemma parse_qsl_values:
  "map snd (filter (\<lambda>nv. fst nv = k) (List.map_filter parse_field flds)) =
   concat (map (\<lambda>field.
                    case split1 (CHR ''='') field of
                      None \<Rightarrow> []
                    | Some (n, v) \<Rightarrow>
                        if v \<noteq> [] \<and> unquote (plus_to_space n) = k
                        then [unquote (plus_to_space v)] else [])
                 flds)"
proof (induction flds)
  case Nil
  show ?case by (simp add: List.map_filter_simps)
next
  case (Cons f flds)
  have e: "split1 (CHR ''='') [] = None" by (simp add: split1_def)
  show ?case
    using Cons.IH
    by (cases "f = []")
       (auto simp: List.map_filter_simps parse_field_def e split: option.splits)
qed

lemma parse_qs_lookup:
  "map_of (parse_qs qs) k = (if values_of qs k = [] then None else Some (values_of qs k))"
proof -
  have v: "values_of qs k = map snd (filter (\<lambda>nv. fst nv = k) (parse_qsl qs))"
    by (simp add: values_of_def parse_qsl_def parse_qsl_values)
  have "k \<notin> fst ` set (parse_qsl qs) \<longleftrightarrow> filter (\<lambda>nv. fst nv = k) (parse_qsl qs) = []"
    by (auto simp: filter_empty_conv)
  then show ?thesis
    unfolding v parse_qs_def collect_lookup by auto
qed

lemma values_of_empty: "values_of [] k = []"
  by (simp add: values_of_def split1_def)

text \<open>
  C7 (as amended). For every query string and key, the query map holds nothing for the
  key when no field gives it a non-blank value, that value as a scalar when exactly one
  field does, and the list of all its non-blank values, in order, when several do (names
  and values decoded: \<^verbatim>\<open>+\<close> as space, then percent-decoding). Fields with a blank value
  or without \<^verbatim>\<open>=\<close> do not count. The keys of the map are distinct, and the query string
  of a request is what follows the first \<^verbatim>\<open>?\<close> of its path.
\<close>

theorem C7_query_map:
  "map_of (query_of qs) k =
     (case values_of qs k of
        [] \<Rightarrow> None
      | [v] \<Rightarrow> Some (Scalar v)
      | v # w # vs \<Rightarrow> Some (Sequence (v # w # vs)))
   \<and> distinct (map fst (query_of qs))
   \<and> (CHR ''?'' \<notin> set p \<longrightarrow>
        query (Request E meth (p @ CHR ''?'' # qs) hs b addr) = query_of qs
        \<and> path (Request E meth (p @ CHR ''?'' # qs) hs b addr) = p)"
proof -
  have d: "distinct (map fst (parse_qs qs))"
    unfolding parse_qs_def by (rule collect_distinct) simp
  have l: "map_of (query_of qs) k =
     (case values_of qs k of
        [] \<Rightarrow> None
      | [v] \<Rightarrow> Some (Scalar v)
      | v # w # vs \<Rightarrow> Some (Sequence (v # w # vs)))"
  proof (cases "qs = []")
    case True
    then show ?thesis by (simp add: query_of_def values_of_empty)
  next
    case False
    then show ?thesis
      by (simp add: query_of_def fold_update_lookup [OF d] parse_qs_lookup unwrap_def
          split: list.splits)
  qed
  have dq: "distinct (map fst (query_of qs))"
    by (simp add: query_of_def fold_update_distinct)
  have r: "CHR ''?'' \<notin> set p \<longrightarrow>
        query (Request E meth (p @ CHR ''?'' # qs) hs b addr) = query_of qs
        \<and> path (Request E meth (p @ CHR ''?'' # qs) hs b addr) = p"
    by (auto simp: Request_def split1_def split_at_first)
  from l dq r show ?thesis by blast
qed

text \<open>The example of the specification, and one with escapes.\<close>

theorem C7_query_map_witness:
  "CHR ''?'' \<notin> set ''/echo''
   \<and> query (Request no_files ''GET'' ''/echo?message=hi&tag=a&tag=b'' [] [] ''127.0.0.1'')
       = [(''message'', Scalar ''hi''), (''tag'', Sequence [''a'', ''b''])]
   \<and> map_of (query_of ''message=hi&tag=a&tag=b'') ''tag'' = Some (Sequence [''a'', ''b''])
   \<and> map_of (query_of ''q=caf%C3%A9+au+lait%21&q=%zz'') ''q''
       = Some (Sequence [''caf'' @ [CHR 0xC3, CHR 0xA9] @ '' au lait!'', ''%zz''])"
proof -
  have h: "CHR ''?'' \<notin> set ''/echo''" by simp
  have q: "query_of ''message=hi&tag=a&tag=b''
       = [(''message'', Scalar ''hi''), (''tag'', Sequence [''a'', ''b''])]"
    by code_simp
  have v1: "values_of ''message=hi&tag=a&tag=b'' ''tag'' = [''a'', ''b'']"
    by code_simp
  have v2: "values_of ''q=caf%C3%A9+au+lait%21&q=%zz'' ''q''
      = [''caf'' @ [CHR 0xC3, CHR 0xA9] @ '' au lait!'', ''%zz'']"
    by code_simp
  from C7_query_map [of "''message=hi&tag=a&tag=b''" "''tag''" "''/echo''" no_files "''GET''" "[]" "[]" "''127.0.0.1''"] h
  have a: "query (Request no_files ''GET'' (''/echo'' @ CHR ''?'' # ''message=hi&tag=a&tag=b'') [] [] ''127.0.0.1'')
       = query_of ''message=hi&tag=a&tag=b''"
    and b: "map_of (query_of ''message=hi&tag=a&tag=b'') ''tag'' = Some (Sequence [''a'', ''b''])"
    by (simp_all add: v1)
  from C7_query_map [of "''q=caf%C3%A9+au+lait%21&q=%zz''" "''q''"]
  have c: "map_of (query_of ''q=caf%C3%A9+au+lait%21&q=%zz'') ''q''
       = Some (Sequence [''caf'' @ [CHR 0xC3, CHR 0xA9] @ '' au lait!'', ''%zz''])"
    by (simp add: v2)
  from a q b c show ?thesis by simp
qed

text \<open>
  C7 as stated fails on blank values: in \<^verbatim>\<open>tag=&tag=b\<close> the key occurs twice but maps to
  the scalar \<^verbatim>\<open>b\<close>, not to the list of both values; in \<^verbatim>\<open>flag&empty=\<close> each key occurs
  once and neither is in the map.
\<close>

theorem C7_blank_values_dropped:
  "query_of ''tag=&tag=b'' = [(''tag'', Scalar ''b'')]
   \<and> query_of ''flag&empty='' = []"
  by code_simp

subsection \<open>The JSON body\<close>

lemma utf8_units_aux_concat:
  "concat (map snd (utf8_units_aux k ok cur bs)) = cur @ bs"
  by (induction k ok cur bs rule: utf8_units_aux.induct) (auto split: prod.splits)

lemma utf8_units_concat: "concat (map snd (utf8_units b)) = b"
  by (simp add: utf8_units_def utf8_units_aux_concat)

lemma subseq_concat_filter:
  "subseq (concat (map snd (filter fst us))) (concat (map snd us))"
proof (induction us)
  case Nil
  show ?case by simp
next
  case (Cons u us)
  show ?case
  proof (cases "fst u")
    case True
    with Cons show ?thesis by (auto intro: list_emb_append_mono)
  next
    case False
    with Cons show ?thesis by (simp add: list_emb_append2)
  qed
qed

lemma decode_ignore_subseq: "subseq (decode_ignore b) b"
  using subseq_concat_filter [of "utf8_units b"]
  by (simp add: decode_ignore_def utf8_units_concat)

lemma decode_ignore_valid: "decode_strict b \<noteq> None \<Longrightarrow> decode_ignore b = b"
proof -
  assume "decode_strict b \<noteq> None"
  then have "list_all fst (utf8_units b)"
    by (simp add: decode_strict_def split: if_splits)
  then have "filter fst (utf8_units b) = utf8_units b"
    by (simp add: list_all_iff)
  then show ?thesis by (simp add: decode_ignore_def utf8_units_concat)
qed

lemma utf8_extra_le: "utf8_extra c cs = (ok, k) \<Longrightarrow> k \<le> length cs"
  by (auto simp: utf8_extra_def Let_def split: if_splits list.splits)

lemma utf8_extra_local:
  "utf8_extra c cs = (True, k) \<Longrightarrow> utf8_extra c (take k cs @ t) = (True, k)"
  by (auto simp: utf8_extra_def Let_def split: if_splits list.splits)

lemma utf8_units_aux_unit:
  "cur \<noteq> [] \<Longrightarrow> k \<le> length bs \<Longrightarrow>
   utf8_units_aux k ok cur bs = (ok, cur @ take k bs) # utf8_units (drop k bs)"
proof (induction k ok cur bs rule: utf8_units_aux.induct)
  case (1 skip ok cur)
  then show ?case by (simp add: utf8_units_def)
next
  case (2 k ok cur c cs)
  then show ?case by simp
next
  case (3 ok cur c cs)
  then show ?case by (simp add: utf8_units_def)
qed

lemma utf8_units_Cons:
  "utf8_extra c cs = (ok, k) \<Longrightarrow>
   utf8_units (c # cs) = (ok, c # take k cs) # utf8_units (drop k cs)"
  using utf8_units_aux_unit [of "[c]" k cs ok] utf8_extra_le [of c cs ok k]
  by (simp add: utf8_units_def)

lemma decode_ignore_well_formed: "decode_strict (decode_ignore b) \<noteq> None"
proof -
  have "list_all fst (utf8_units (decode_ignore b))"
  proof (induction b rule: length_induct)
    case (1 b)
    show ?case
    proof (cases b)
      case Nil
      then show ?thesis by (simp add: decode_ignore_def utf8_units_def)
    next
      case (Cons c cs)
      obtain ok k where e: "utf8_extra c cs = (ok, k)" by (cases "utf8_extra c cs")
      have le: "k \<le> length cs" using e by (rule utf8_extra_le)
      have ih: "list_all fst (utf8_units (decode_ignore (drop k cs)))"
        using 1 Cons by simp
      have d: "decode_ignore b = (if ok then c # take k cs else []) @ decode_ignore (drop k cs)"
        using Cons utf8_units_Cons [OF e] by (simp add: decode_ignore_def)
      show ?thesis
      proof (cases ok)
        case False
        with d ih show ?thesis by simp
      next
        case True
        with e have "utf8_extra c (take k cs @ decode_ignore (drop k cs)) = (True, k)"
          by (simp add: utf8_extra_local)
        from utf8_units_Cons [OF this] le
        have "utf8_units (c # take k cs @ decode_ignore (drop k cs))
            = (True, c # take k cs) # utf8_units (decode_ignore (drop k cs))"
          by simp
        with d True ih show ?thesis by simp
      qed
    qed
  qed
  then show ?thesis by (simp add: decode_strict_def)
qed

text \<open>
  C6 (as amended). For every non-empty body whose \<^verbatim>\<open>Content-Type\<close> contains
  \<^verbatim>\<open>application/json\<close>, the decoded body is the parsed JSON value when \<^verbatim>\<open>json.loads\<close>
  succeeds, and otherwise a text: the bytes decoded as UTF-8 with every invalid sequence
  dropped (\<^verbatim>\<open>errors='ignore'\<close>), not replaced. That text is obtained from the body by
  deleting bytes only, it is well-formed UTF-8, and it is the body itself when the body
  is well-formed. Nothing is raised: the decoder is a total function into the body
  values.
\<close>

theorem C6_json_body_fails_open:
  assumes "b \<noteq> []"
    and "sublist ''application/json'' (header_get hs ''Content-Type'' [])"
  shows "req_body (Request E meth pth hs b addr)
           = (case json_loads E b of
                Some v \<Rightarrow> BodyJson v
              | None \<Rightarrow> BodyText (decode_ignore b))
     \<and> subseq (decode_ignore b) b
     \<and> decode_strict (decode_ignore b) \<noteq> None
     \<and> (decode_strict b \<noteq> None \<longrightarrow> decode_ignore b = b)"
  using assms decode_ignore_well_formed [of b]
  by (auto simp: Request_def decode_body_def Let_def decode_ignore_subseq decode_ignore_valid
      split: option.splits prod.splits)

text \<open>A body the parser accepts, and one it refuses.\<close>

lemma json_content_type:
  "sublist ''application/json'' (header_get [(''Content-Type'', ''application/json; charset=utf-8'')]
      ''Content-Type'' [])"
  by code_simp

theorem C6_json_body_fails_open_witness:
  "x1_doc \<noteq> [] \<and> ''{x:'' \<noteq> []
   \<and> sublist ''application/json''
        (header_get [(''Content-Type'', ''application/json; charset=utf-8'')] ''Content-Type'' [])
   \<and> req_body (Request x1_only ''POST'' ''/data''
                 [(''Content-Type'', ''application/json; charset=utf-8'')] x1_doc ''127.0.0.1'')
        = BodyJson (JObject [(''x'', JInt 1)])
   \<and> req_body (Request x1_only ''POST'' ''/data''
                 [(''Content-Type'', ''application/json; charset=utf-8'')] ''{x:'' ''127.0.0.1'')
        = BodyText ''{x:''"
proof -
  have n1: "x1_doc \<noteq> []" by (simp add: x1_doc_def)
  have n2: "''{x:'' \<noteq> []" by simp
  have j1: "json_loads x1_only x1_doc = Some (JObject [(''x'', JInt 1)])"
    by (simp add: x1_only_def)
  have j2: "json_loads x1_only ''{x:'' = None"
    by (simp add: x1_only_def x1_doc_def)
  have d: "decode_ignore ''{x:'' = ''{x:''" by code_simp
  from C6_json_body_fails_open [OF n1 json_content_type, of x1_only "''POST''" "''/data''" "''127.0.0.1''"]
       C6_json_body_fails_open [OF n2 json_content_type, of x1_only "''POST''" "''/data''" "''127.0.0.1''"]
  show ?thesis
    using n1 n2 json_content_type by (simp add: j1 j2 d)
qed

text \<open>
  C6 as stated fails on "replaced": for the body \<^verbatim>\<open>FF 61\<close>, which no JSON parser
  accepts, the decoded body is the text \<^verbatim>\<open>a\<close>; decoding with replacement would give
  U+FFFD and then \<^verbatim>\<open>a\<close>.
\<close>

theorem C6_invalid_bytes_dropped_not_replaced:
  "json_loads no_files [CHR 0xFF, CHR ''a''] = None
   \<and> req_body (Request no_files ''POST'' ''/data'' [(''Content-Type'', ''application/json'')]
                 [CHR 0xFF, CHR ''a''] ''127.0.0.1'')
        = BodyText ''a''
   \<and> decode_replace [CHR 0xFF, CHR ''a''] = [CHR 0xEF, CHR 0xBF, CHR 0xBD, CHR ''a'']"
proof -
  have "decode_ignore [CHR 0xFF, CHR ''a''] = ''a''" by code_simp
  moreover have "decode_replace [CHR 0xFF, CHR ''a''] = [CHR 0xEF, CHR 0xBF, CHR 0xBD, CHR ''a'']"
    by code_simp
  moreover have "sublist ''application/json''
      (header_get [(''Content-Type'', ''application/json'')] ''Content-Type'' [])"
    by code_simp
  ultimately show ?thesis
    by (simp add: Request_def decode_body_def no_files_def split1_def)
qed

subsection \<open>Reading a malformed request\<close>

lemma bad_length_parse:
  "readline bad_length_request
     = (''POST /data HTTP/1.1'' @ CRLF, ''Content-Length: abc'' @ CRLF @ CRLF)"
  "decode_strict (''POST /data HTTP/1.1'' @ CRLF) = Some (''POST /data HTTP/1.1'' @ CRLF)"
  "split_ws (strip_ws (''POST /data HTTP/1.1'' @ CRLF)) = [''POST'', ''/data'', ''HTTP/1.1'']"
  "read_headers [] (''Content-Length: abc'' @ CRLF @ CRLF) = Inr ([(''Content-Length'', ''abc'')], [])"
  "read_body [(''Content-Length'', ''abc'')] []
     = BodyRaises (PyExc ValueError ''invalid literal for int() with base 10'')"
  by code_simp+

lemma bad_header_parse:
  "readline bad_header_request
     = (''GET / HTTP/1.1'' @ CRLF, ''X-Name: '' @ [CHR 0xFF] @ CRLF @ CRLF)"
  "decode_strict (''GET / HTTP/1.1'' @ CRLF) = Some (''GET / HTTP/1.1'' @ CRLF)"
  "split_ws (strip_ws (''GET / HTTP/1.1'' @ CRLF)) = [''GET'', ''/'', ''HTTP/1.1'']"
  "read_headers [] (''X-Name: '' @ [CHR 0xFF] @ CRLF @ CRLF)
     = Inl (PyExc UnicodeDecodeError ''invalid utf-8'')"
  by code_simp+

text \<open>
  C9 does not hold of the code. A request with \<^verbatim>\<open>Content-Length: abc\<close> makes
  \<^verbatim>\<open>int\<close> raise \<^verbatim>\<open>ValueError\<close> outside any \<^verbatim>\<open>try\<close>: the exception leaves
  \<^verbatim>\<open>handle_request\<close>, nothing has been written and the socket is not closed. The same
  happens with \<^verbatim>\<open>UnicodeDecodeError\<close> for a header line that is not UTF-8. This holds for
  every application and environment and every state of the socket.
\<close>

theorem C9_bad_content_length_aborts:
  "handle_request E A bad_length_request client addr
     = (Propagated (PyExc ValueError ''invalid literal for int() with base 10''), client)
   \<and> handle_request E A bad_header_request client addr
     = (Propagated (PyExc UnicodeDecodeError ''invalid utf-8''), client)"
  by (simp add: handle_request_def bad_length_parse bad_header_parse del: append.simps)

subsection \<open>Static paths with parent segments\<close>

lemma climbing_parse:
  "readline climbing_request = (''GET /static/../server.py HTTP/1.1'' @ CRLF, CRLF)"
  "decode_strict (''GET /static/../server.py HTTP/1.1'' @ CRLF)
     = Some (''GET /static/../server.py HTTP/1.1'' @ CRLF)"
  "split_ws (strip_ws (''GET /static/../server.py HTTP/1.1'' @ CRLF))
     = [''GET'', ''/static/../server.py'', ''HTTP/1.1'']"
  "read_headers [] CRLF = Inr ([], [])"
  "read_body [] [] = BodyBytes []"
  by code_simp+

lemma climbing_path:
  "static_file_path source_beside ''/static'' ''./static'' ''/static/../server.py''
     = ''./static/../server.py''"
  "normpath ''./static/../server.py'' = (False, [''server.py''])"
  "normpath ''./static'' = (False, [''static''])"
  "split_on (CHR ''/'') ''/static/../server.py'' = [[], ''static'', ''..'', ''server.py'']"
  by code_simp+

lemma climbing_open:
  "open_rb source_beside ''./static/../server.py'' = Inr ''import socket''"
  by (simp add: source_beside_def climbing_path)

lemma climbing_request_value:
  "Request source_beside ''GET'' ''/static/../server.py'' [] [] addr
    = \<lparr>req_method = ''GET'', raw_path = ''/static/../server.py'', path = ''/static/../server.py'',
       query = [], req_headers = [], params = [], client_addr = addr, req_body = BodyNone\<rparr>"
  by (simp add: Request_def split1_def query_of_def decode_body_def)

text \<open>
  C10. The file a request path names under a static mapping is the directory joined with
  what follows the prefix, less its leading slashes, and nothing else is done to it. With
  the mapping of \<^verbatim>\<open>app.py\<close> (\<^verbatim>\<open>/static\<close> to \<^verbatim>\<open>./static\<close>), the request path
  \<^verbatim>\<open>/static/../server.py\<close> starts with the prefix, has a \<^verbatim>\<open>..\<close> segment, and names
  \<^verbatim>\<open>./static/../server.py\<close>, which is not in \<^verbatim>\<open>./static\<close>; and the server, given that
  request, answers with the bytes of that file.
\<close>

theorem C10_static_path_not_confined:
  "static_file_path E pre directory (pre @ rel)
     = (if isdir E (path_join directory (lstrip (CHR ''/'') rel))
        then path_join (path_join directory (lstrip (CHR ''/'') rel)) ''index.html''
        else path_join directory (lstrip (CHR ''/'') rel))
   \<and> static_routes (use_static MiniExpress ''/static'' ''./static'') = [(''/static'', ''./static'')]
   \<and> prefix ''/static'' ''/static/../server.py''
   \<and> ''..'' \<in> set (split_on (CHR ''/'') ''/static/../server.py'')
   \<and> static_file_path source_beside ''/static'' ''./static'' ''/static/../server.py''
        = ''./static/../server.py''
   \<and> \<not> inside ''./static'' ''./static/../server.py''
   \<and> wire (snd (handle_request source_beside (use_static MiniExpress ''/static'' ''./static'')
                    climbing_request sock0 ''127.0.0.1''))
        = [''HTTP/1.1 200 OK'' @ CRLF,
           ''Content-Type: text/x-python'' @ CRLF,
           ''Access-Control-Allow-Origin: *'' @ CRLF,
           ''Connection: close'' @ CRLF,
           ''Content-Length: 13'' @ CRLF,
           CRLF,
           ''import socket'']"
proof -
  have g: "static_file_path E pre directory (pre @ rel)
     = (if isdir E (path_join directory (lstrip (CHR ''/'') rel))
        then path_join (path_join directory (lstrip (CHR ''/'') rel)) ''index.html''
        else path_join directory (lstrip (CHR ''/'') rel))"
    by (simp add: static_file_path_def Let_def)
  have s: "static_routes (use_static MiniExpress ''/static'' ''./static'') = [(''/static'', ''./static'')]"
    by (simp add: use_static_def MiniExpress_def rstrip_def)
  have o: "\<not> inside ''./static'' ''./static/../server.py''"
    by (simp add: inside_def climbing_path)
  have gt: "content_type_of source_beside ''./static/../server.py'' = ''text/x-python''"
    by (simp add: content_type_of_def source_beside_def no_files_def suffix_def)
  have d: "dispatch source_beside (use_static MiniExpress ''/static'' ''./static'')
              (Request source_beside ''GET'' ''/static/../server.py'' [] [] ''127.0.0.1'')
              (Response sock0)
      = (Returned,
         \<lparr>client_sock =
            \<lparr>wire = [''HTTP/1.1 200 OK'' @ CRLF,
                     ''Content-Type: text/x-python'' @ CRLF,
                     ''Access-Control-Allow-Origin: *'' @ CRLF,
                     ''Connection: close'' @ CRLF,
                     ''Content-Length: 13'' @ CRLF,
                     CRLF,
                     ''import socket''],
             budget = None, fault = PyExc BrokenPipeError [], closed = True\<rparr>,
          status_code = 200, status_text = ''OK'',
          headers = [(''Content-Type'', ''text/x-python''),
                     (''Access-Control-Allow-Origin'', ''*''),
                     (''Connection'', ''close''), (''Content-Length'', ''13'')],
          sent = True\<rparr>)"
    by (simp add: climbing_request_value dispatch_def s serve_static_def climbing_path
        climbing_open gt eval_send close_conn_def close_def)
  have w: "wire (snd (handle_request source_beside (use_static MiniExpress ''/static'' ''./static'')
                    climbing_request sock0 ''127.0.0.1''))
        = [''HTTP/1.1 200 OK'' @ CRLF,
           ''Content-Type: text/x-python'' @ CRLF,
           ''Access-Control-Allow-Origin: *'' @ CRLF,
           ''Connection: close'' @ CRLF,
           ''Content-Length: 13'' @ CRLF,
           CRLF,
           ''import socket'']"
    by (simp add: handle_request_def climbing_parse d del: append.simps)
  from g s o w show ?thesis by (simp add: climbing_path)
qed

end
